theory Spec2Isabelle
  imports Complex_Main "HOL-Library.Multiset" "HOL-Library.Sublist" "HOL-Library.Char_ord"
    "HOL-Library.List_Lexorder"
begin

section \<open>Python values, exceptions and dictionaries\<close>

text \<open>
  A cell of a result row, as \<open>Warehouse.query\<close> hands it to the application, or a
  default of \<open>dict.get\<close>: null, an integer or text (the SQL Statement Execution API
  delivers a number as its decimal text). No cell is a \<open>datetime\<close> or a \<open>date\<close>
  object, so \<open>isinstance(timestamp, datetime)\<close> and \<open>hasattr(date_val, 'strftime')\<close>
  are false for every value of this type.
\<close>

datatype pyval = PyNone | PyInt int | PyStr string

text \<open>
  Exceptions: \<open>Prefixed p e\<close> is \<open>Exception(f"{p}{str(e)}")\<close> raised from the exception
  \<open>e\<close>.
\<close>

datatype exn = TypeError | ValueError | ZeroDivisionError | Exception string | Prefixed string exn

type_synonym row = "string \<rightharpoonup> pyval"

type_synonym 'a result = "exn + 'a"

text \<open>\<open>d.get(k, default)\<close>.\<close>

definition dict_get :: "row \<Rightarrow> string \<Rightarrow> pyval \<Rightarrow> pyval" where
  "dict_get d k dflt = (case d k of None \<Rightarrow> dflt | Some v \<Rightarrow> v)"

text \<open>Sequencing of computations that may raise: the first exception ends the block.\<close>

definition bind_exn :: "'a result \<Rightarrow> ('a \<Rightarrow> 'b result) \<Rightarrow> 'b result" where
  "bind_exn m k = (case m of Inl e \<Rightarrow> Inl e | Inr v \<Rightarrow> k v)"

subsection \<open>Decimal text\<close>

definition digit_char :: "nat \<Rightarrow> char" where
  "digit_char d = char_of (48 + d)"

function str_nat :: "nat \<Rightarrow> string" where
  "str_nat n = (if n < 10 then [digit_char n] else str_nat (n div 10) @ [digit_char (n mod 10)])"
  by pat_completeness auto
termination
  by (relation "measure id") auto

text \<open>\<open>str(i)\<close> and the \<open>{i}\<close> of an f-string, for an integer.\<close>

definition str_int :: "int \<Rightarrow> string" where
  "str_int i = (if i < 0 then CHR ''-'' # str_nat (nat (- i)) else str_nat (nat i))"

definition is_digit :: "char \<Rightarrow> bool" where
  "is_digit c = (48 \<le> (of_char c :: nat) \<and> (of_char c :: nat) \<le> 57)"

definition digit_val :: "char \<Rightarrow> int" where
  "digit_val c = of_char c - 48"

definition is_space :: "char \<Rightarrow> bool" where
  "is_space c = ((of_char c :: nat) = 32 \<or> (9 \<le> (of_char c :: nat) \<and> (of_char c :: nat) \<le> 13))"

definition strip :: "string \<Rightarrow> string" where
  "strip s = rev (dropWhile is_space (rev (dropWhile is_space s)))"

text \<open>
  The number written by a run of decimal digits, in which single underscores may stand
  between two digits (the digit part of a Python numeric literal); \<open>None\<close> for anything
  else.
\<close>

fun read_digits :: "int \<Rightarrow> string \<Rightarrow> int option" where
  "read_digits acc [] = Some acc"
| "read_digits acc (c # cs) =
     (if is_digit c then read_digits (10 * acc + digit_val c) cs
      else if c = CHR ''_'' \<and> cs \<noteq> [] \<and> is_digit (hd cs) then read_digits acc cs
      else None)"

definition read_nat :: "string \<Rightarrow> int option" where
  "read_nat s = (case s of [] \<Rightarrow> None | c # cs \<Rightarrow> if is_digit c then read_digits 0 s else None)"

text \<open>
  \<open>int(s)\<close> for text: surrounding white space, an optional sign, decimal digits. Digits
  and white space beyond ASCII, which Python also accepts, are outside \<open>char\<close>.
\<close>

definition int_of_str :: "string \<Rightarrow> int option" where
  "int_of_str s =
     (case strip s of
        [] \<Rightarrow> None
      | c # cs \<Rightarrow>
          if c = CHR ''-'' then map_option uminus (read_nat cs)
          else if c = CHR ''+'' then read_nat cs
          else read_nat (c # cs))"

text \<open>\<open>int(v)\<close>.\<close>

definition py_int :: "pyval \<Rightarrow> int result" where
  "py_int v =
     (case v of
        PyNone \<Rightarrow> Inl TypeError
      | PyInt n \<Rightarrow> Inr n
      | PyStr s \<Rightarrow> (case int_of_str s of None \<Rightarrow> Inl ValueError | Some n \<Rightarrow> Inr n))"

text \<open>
  \<open>float(v)\<close>. The result is kept as the exact decimal that was read (the rounding to
  binary64 is not modelled); the text forms are a sign, digits with an optional
  fraction, and an optional exponent.
\<close>

definition split_at :: "char \<Rightarrow> string \<Rightarrow> string \<times> string option" where
  "split_at c s =
     (if c \<in> set s then (takeWhile (\<lambda>x. x \<noteq> c) s, Some (tl (dropWhile (\<lambda>x. x \<noteq> c) s)))
      else (s, None))"

definition read_signed :: "string \<Rightarrow> int option" where
  "read_signed s =
     (case s of
        [] \<Rightarrow> None
      | c # cs \<Rightarrow>
          if c = CHR ''-'' then map_option uminus (read_nat cs)
          else if c = CHR ''+'' then read_nat cs
          else read_nat s)"

definition read_mantissa :: "string \<Rightarrow> rat option" where
  "read_mantissa s =
     (case split_at CHR ''.'' s of
        (ip, None) \<Rightarrow> map_option of_int (read_nat ip)
      | (ip, Some fp) \<Rightarrow>
          if ip = [] \<and> fp = [] then None
          else
            (case (if ip = [] then Some 0 else read_nat ip,
                   if fp = [] then Some 0 else read_nat fp) of
               (Some i, Some f) \<Rightarrow>
                 Some (of_int i + of_int f / 10 ^ length (filter is_digit fp))
             | _ \<Rightarrow> None))"

definition lower_char :: "char \<Rightarrow> char" where
  "lower_char c =
     (if 65 \<le> (of_char c :: nat) \<and> (of_char c :: nat) \<le> 90 then char_of ((of_char c :: nat) + 32)
      else c)"

definition lower :: "string \<Rightarrow> string" where
  "lower s = map lower_char s"

datatype pyfloat = Finite rat | Infinity bool | NaN

definition pow10 :: "int \<Rightarrow> rat" where
  "pow10 e = (if 0 \<le> e then 10 ^ nat e else 1 / 10 ^ nat (- e))"

definition read_unsigned_float :: "string \<Rightarrow> pyfloat option" where
  "read_unsigned_float s =
     (if s = ''inf'' \<or> s = ''infinity'' then Some (Infinity True)
      else if s = ''nan'' then Some NaN
      else
        (case split_at CHR ''e'' s of
           (m, None) \<Rightarrow> map_option Finite (read_mantissa m)
         | (m, Some ex) \<Rightarrow>
             (case (read_mantissa m, read_signed ex) of
                (Some q, Some e) \<Rightarrow> Some (Finite (q * pow10 e))
              | _ \<Rightarrow> None)))"

definition negate :: "pyfloat \<Rightarrow> pyfloat" where
  "negate x = (case x of Finite q \<Rightarrow> Finite (- q) | Infinity b \<Rightarrow> Infinity (\<not> b) | NaN \<Rightarrow> NaN)"

definition float_of_str :: "string \<Rightarrow> pyfloat option" where
  "float_of_str s =
     (case lower (strip s) of
        [] \<Rightarrow> None
      | c # cs \<Rightarrow>
          if c = CHR ''-'' then map_option negate (read_unsigned_float cs)
          else if c = CHR ''+'' then read_unsigned_float cs
          else read_unsigned_float (c # cs))"

definition py_float :: "pyval \<Rightarrow> pyfloat result" where
  "py_float v =
     (case v of
        PyNone \<Rightarrow> Inl TypeError
      | PyInt n \<Rightarrow> Inr (Finite (of_int n))
      | PyStr s \<Rightarrow> (case float_of_str s of None \<Rightarrow> Inl ValueError | Some x \<Rightarrow> Inr x))"

text \<open>\<open>str(v) if v else ""\<close>: \<open>None\<close>, \<open>0\<close> and the empty text are false.\<close>

definition str_or_empty :: "pyval \<Rightarrow> string" where
  "str_or_empty v =
     (case v of PyNone \<Rightarrow> [] | PyInt n \<Rightarrow> (if n = 0 then [] else str_int n) | PyStr s \<Rightarrow> s)"

text \<open>\<open>a // b\<close> on integers: floor division, \<open>ZeroDivisionError\<close> for a zero divisor.\<close>

definition py_floordiv :: "int \<Rightarrow> int \<Rightarrow> int result" where
  "py_floordiv a b = (if b = 0 then Inl ZeroDivisionError else Inr (a div b))"

section \<open>Filters and the text of the three statements\<close>

text \<open>
  The filter parameters of \<open>get_inspections\<close> (App2) and \<open>load_inspections\<close> (App1):
  each is \<open>None\<close> or text. \<open>load_inspections\<close> has no \<open>region\<close> parameter; it never
  reads that field.
\<close>

record filters =
  region :: "string option"
  factory :: "string option"
  camera :: "string option"
  prediction :: "string option"
  defect_type :: "string option"
  search :: "string option"
  date_from :: "string option"
  date_to :: "string option"

definition no_filters :: filters where
  "no_filters =
     \<lparr>region = None, factory = None, camera = None, prediction = None,
      defect_type = None, search = None, date_from = None, date_to = None\<rparr>"

text \<open>\<open>if x:\<close> for an optional text: \<open>None\<close> and the empty text are false.\<close>

definition truthy :: "string option \<Rightarrow> bool" where
  "truthy x = (case x of None \<Rightarrow> False | Some s \<Rightarrow> s \<noteq> [])"

text \<open>One \<open>where_clauses.append(f"<pre>{v}<post>")\<close> under \<open>if v:\<close>.\<close>

definition clause :: "string \<Rightarrow> string \<Rightarrow> string option \<Rightarrow> string list" where
  "clause pre post x = (case x of None \<Rightarrow> [] | Some s \<Rightarrow> if s \<noteq> [] then [pre @ s @ post] else [])"

definition defect_clause :: "string option \<Rightarrow> string list" where
  "defect_clause x =
     (case x of
        None \<Rightarrow> []
      | Some s \<Rightarrow> if s \<noteq> [] \<and> s \<noteq> ''All'' then [''defect_type = '' @ [CHR 0x27] @ s @ [CHR 0x27]] else [])"

definition where_clauses :: "filters \<Rightarrow> string list" where
  "where_clauses f =
     clause (''factory_id = '' @ [CHR 0x27]) [CHR 0x27] (factory f) @
     clause (''camera_id = '' @ [CHR 0x27]) [CHR 0x27] (camera f) @
     clause (''prediction = '' @ [CHR 0x27]) [CHR 0x27] (prediction f) @
     defect_clause (defect_type f) @
     clause (''inspection_id LIKE '' @ [CHR 0x27] @ ''%'') (''%'' @ [CHR 0x27]) (search f) @
     clause (''date >= '' @ [CHR 0x27]) [CHR 0x27] (date_from f) @
     clause (''date <= '' @ [CHR 0x27]) [CHR 0x27] (date_to f)"

text \<open>\<open>" AND ".join(xs)\<close>.\<close>

fun join_and :: "string list \<Rightarrow> string" where
  "join_and [] = []"
| "join_and [x] = x"
| "join_and (x # y # ys) = x @ '' AND '' @ join_and (y # ys)"

definition where_sql :: "filters \<Rightarrow> string" where
  "where_sql f = (if where_clauses f \<noteq> [] then join_and (where_clauses f) else ''1=1'')"

definition nl :: string where
  "nl = [CHR 0x0A]"

definition count_query :: "filters \<Rightarrow> string" where
  "count_query f =
     nl @ ''            SELECT COUNT(*) as count'' @
     nl @ ''            FROM serverless_opm_catalog.opm.inspections'' @
     nl @ ''            WHERE '' @ where_sql f @
     nl @ ''        ''"

definition data_query :: "filters \<Rightarrow> int \<Rightarrow> int \<Rightarrow> string" where
  "data_query f per_page offset =
     nl @ ''            SELECT '' @
     nl @ ''                inspection_id,'' @
     nl @ ''                factory_id,'' @
     nl @ ''                camera_id,'' @
     nl @ ''                timestamp,'' @
     nl @ ''                image_path,'' @
     nl @ ''                prediction,'' @
     nl @ ''                confidence_score,'' @
     nl @ ''                defect_type,'' @
     nl @ ''                inference_time_ms,'' @
     nl @ ''                model_version,'' @
     nl @ ''                date'' @
     nl @ ''            FROM serverless_opm_catalog.opm.inspections'' @
     nl @ ''            WHERE '' @ where_sql f @
     nl @ ''            ORDER BY timestamp DESC'' @
     nl @ ''            LIMIT '' @ str_int per_page @ '' OFFSET '' @ str_int offset @
     nl @ ''        ''"

text \<open>The statistics statement of App1 (\<open>load_inspections\<close>).\<close>

definition stats_query_app1 :: "filters \<Rightarrow> string" where
  "stats_query_app1 f =
     nl @ ''            SELECT '' @
     nl @ ''                COUNT(*) as total,'' @
     nl @ ''                SUM(CASE WHEN prediction = '' @ [CHR 0x27] @ ''OK'' @ [CHR 0x27] @
          '' THEN 1 ELSE 0 END) as ok_count,'' @
     nl @ ''                SUM(CASE WHEN prediction = '' @ [CHR 0x27] @ ''KO'' @ [CHR 0x27] @
          '' THEN 1 ELSE 0 END) as ko_count'' @
     nl @ ''            FROM serverless_opm_catalog.opm.inspections'' @
     nl @ ''            WHERE '' @ where_sql f @
     nl @ ''        ''"

text \<open>
  The statistics statement of App2 (\<open>get_inspections\<close>): \<open>if region: ... else: ...\<close>,
  with the text of each branch for a region \<open>rg\<close> and a condition \<open>w\<close>.
\<close>

definition stats_region_text :: "string \<Rightarrow> string \<Rightarrow> string" where
  "stats_region_text rg w =
     nl @ ''                SELECT '' @
     nl @ ''                    COUNT(*) as total,'' @
     nl @ ''                    SUM(CASE WHEN i.prediction = '' @ [CHR 0x27] @ ''OK'' @ [CHR 0x27] @
          '' THEN 1 ELSE 0 END) as ok_count,'' @
     nl @ ''                    SUM(CASE WHEN i.prediction = '' @ [CHR 0x27] @ ''KO'' @ [CHR 0x27] @
          '' THEN 1 ELSE 0 END) as ko_count'' @
     nl @ ''                FROM serverless_opm_catalog.opm.inspections i'' @
     nl @ ''                JOIN serverless_opm_catalog.opm.factories f ON i.factory_id = f.factory_id'' @
     nl @ ''                WHERE f.region = '' @ [CHR 0x27] @ rg @ [CHR 0x27] @ '' AND '' @ w @
     nl @ ''            ''"

definition stats_plain_text :: "string \<Rightarrow> string" where
  "stats_plain_text w =
     nl @ ''                SELECT '' @
     nl @ ''                    COUNT(*) as total,'' @
     nl @ ''                    SUM(CASE WHEN prediction = '' @ [CHR 0x27] @ ''OK'' @ [CHR 0x27] @
          '' THEN 1 ELSE 0 END) as ok_count,'' @
     nl @ ''                    SUM(CASE WHEN prediction = '' @ [CHR 0x27] @ ''KO'' @ [CHR 0x27] @
          '' THEN 1 ELSE 0 END) as ko_count'' @
     nl @ ''                FROM serverless_opm_catalog.opm.inspections'' @
     nl @ ''                WHERE '' @ w @
     nl @ ''            ''"

definition stats_query :: "filters \<Rightarrow> string" where
  "stats_query f =
     (case region f of
        None \<Rightarrow> stats_plain_text (where_sql f)
      | Some rg \<Rightarrow>
          if rg \<noteq> [] then stats_region_text rg (where_sql f) else stats_plain_text (where_sql f))"

section \<open>The query service: \<open>get_inspections\<close> and \<open>load_inspections\<close>\<close>

record inspection =
  inspection_id :: pyval
  factory_id :: pyval
  camera_id :: pyval
  timestamp :: string
  image_path :: pyval
  prediction_of :: pyval
  confidence_score :: pyfloat
  defect_type_of :: pyval
  inference_time_ms :: int
  model_version :: pyval
  date :: string

record pagination =
  page :: int
  per_page :: int
  total_count :: int
  total_pages :: int

record stats =
  total :: int
  filtered :: int
  ok_count :: int
  ko_count :: int

record envelope =
  inspections :: "inspection list"
  pagination_of :: pagination
  stats_of :: stats

text \<open>The body of \<open>for row in rows:\<close>, one formatted inspection per row.\<close>

definition format_row :: "row \<Rightarrow> inspection result" where
  "format_row r =
     bind_exn (py_float (dict_get r ''confidence_score'' (PyInt 0))) (\<lambda>conf.
     bind_exn (py_int (dict_get r ''inference_time_ms'' (PyInt 0))) (\<lambda>inf_ms.
       Inr \<lparr>inspection_id = dict_get r ''inspection_id'' PyNone,
            factory_id = dict_get r ''factory_id'' PyNone,
            camera_id = dict_get r ''camera_id'' PyNone,
            timestamp = str_or_empty (dict_get r ''timestamp'' PyNone),
            image_path = dict_get r ''image_path'' PyNone,
            prediction_of = dict_get r ''prediction'' PyNone,
            confidence_score = conf,
            defect_type_of = dict_get r ''defect_type'' PyNone,
            inference_time_ms = inf_ms,
            model_version = dict_get r ''model_version'' PyNone,
            date = str_or_empty (dict_get r ''date'' PyNone)\<rparr>))"

fun format_rows :: "row list \<Rightarrow> inspection list result" where
  "format_rows [] = Inr []"
| "format_rows (r # rs) =
     bind_exn (format_row r) (\<lambda>i. bind_exn (format_rows rs) (\<lambda>is. Inr (i # is)))"

text \<open>
  The \<open>try\<close> block shared by both applications, which differ in the statistics
  statement only. \<open>wq\<close> is \<open>Warehouse.query\<close>: it returns the rows of a statement or
  raises.
\<close>

definition first_count :: "row list \<Rightarrow> int result" where
  "first_count count_result =
     (case count_result of [] \<Rightarrow> Inr 0 | r # _ \<Rightarrow> py_int (dict_get r ''count'' (PyInt 0)))"

definition first_stats :: "row list \<Rightarrow> row" where
  "first_stats stats_result =
     (case stats_result of
        [] \<Rightarrow> [''total'' \<mapsto> PyInt 0, ''ok_count'' \<mapsto> PyInt 0, ''ko_count'' \<mapsto> PyInt 0]
      | r # _ \<Rightarrow> r)"

definition inspections_body ::
  "(string \<Rightarrow> row list result) \<Rightarrow> string \<Rightarrow> filters \<Rightarrow> int \<Rightarrow> int \<Rightarrow> envelope result" where
  "inspections_body wq stats_text f pg pp =
     bind_exn (wq (count_query f)) (\<lambda>count_result.
     bind_exn (first_count count_result) (\<lambda>tc.
     bind_exn (wq (data_query f pp ((pg - 1) * pp))) (\<lambda>rows.
     bind_exn (format_rows rows) (\<lambda>insps.
     bind_exn (wq stats_text) (\<lambda>stats_result.
     bind_exn (py_floordiv (tc + pp - 1) pp) (\<lambda>tp.
     bind_exn (py_int (dict_get (first_stats stats_result) ''total'' (PyInt 0))) (\<lambda>tot.
     bind_exn (py_int (dict_get (first_stats stats_result) ''ok_count'' (PyInt 0))) (\<lambda>ok.
     bind_exn (py_int (dict_get (first_stats stats_result) ''ko_count'' (PyInt 0))) (\<lambda>ko.
       Inr \<lparr>inspections = insps,
            pagination_of = \<lparr>page = pg, per_page = pp, total_count = tc, total_pages = tp\<rparr>,
            stats_of = \<lparr>total = tot, filtered = tc, ok_count = ok, ko_count = ko\<rparr>\<rparr>)))))))))"

text \<open>
  An \<open>HTTPException\<close>: the status code and the detail, which is a fixed text or a fixed
  text followed by \<open>str(e)\<close> of the exception that was caught. A
  \<open>RequestValidationError\<close> is what FastAPI answers, with status 422, to a request that
  lacks a required parameter, before the handler runs.
\<close>

datatype detail = Text string | Failed string exn

datatype http_error = HTTPException nat detail | RequestValidationError


text \<open>App2: \<open>GET /api/inspections\<close>.\<close>

definition get_inspections ::
  "(string \<Rightarrow> row list result) \<Rightarrow> filters \<Rightarrow> int \<Rightarrow> int \<Rightarrow> http_error + envelope" where
  "get_inspections wq f pg pp =
     (case inspections_body wq (stats_query f) f pg pp of
        Inr env \<Rightarrow> Inr env
      | Inl e \<Rightarrow> Inl (HTTPException 500 (Failed ''Failed to load inspections: '' e)))"

text \<open>
  App1: \<open>load_inspections\<close>. An exception is shown with \<open>st.error\<close> (the first component)
  and the empty envelope is returned.
\<close>

definition error_envelope :: "int \<Rightarrow> envelope" where
  "error_envelope pp =
     \<lparr>inspections = [],
      pagination_of = \<lparr>page = 1, per_page = pp, total_count = 0, total_pages = 0\<rparr>,
      stats_of = \<lparr>total = 0, filtered = 0, ok_count = 0, ko_count = 0\<rparr>\<rparr>"

definition load_inspections ::
  "(string \<Rightarrow> row list result) \<Rightarrow> filters \<Rightarrow> int \<Rightarrow> int \<Rightarrow> exn option \<times> envelope" where
  "load_inspections wq f pg pp =
     (case inspections_body wq (stats_query_app1 f) f pg pp of
        Inr env \<Rightarrow> (None, env)
      | Inl e \<Rightarrow> (Some e, error_envelope pp))"

section \<open>The Row Store\<close>

text \<open>
  The Row Store is the SQL warehouse behind \<open>Warehouse.query\<close>. Its state is the two
  tables that the statements name, each a list of rows of named columns. How it reads
  the text of a \<open>WHERE\<close> condition (\<open>where_holds\<close>) and which instant a timestamp text
  denotes (\<open>instant\<close>) are left open.
\<close>

record row_store =
  inspections_table :: "row list"
  factories_table :: "row list"
  where_holds :: "string \<Rightarrow> row \<Rightarrow> bool"
  instant :: "string \<Rightarrow> int"

text \<open>The rows of \<open>inspections\<close> that satisfy \<open>WHERE {where_sql}\<close>.\<close>

definition matching :: "row_store \<Rightarrow> filters \<Rightarrow> row list" where
  "matching st f = filter (where_holds st (where_sql f)) (inspections_table st)"

text \<open>SQL equality of two cells: never true of a null.\<close>

definition sql_eq :: "pyval option \<Rightarrow> pyval option \<Rightarrow> bool" where
  "sql_eq a b = (a = b \<and> a \<noteq> None \<and> a \<noteq> Some PyNone)"

text \<open>
  The rows of \<open>inspections i JOIN factories f ON i.factory_id = f.factory_id\<close> that
  satisfy \<open>f.region = '<rg>' AND {where_sql}\<close>: one copy of a matching inspection for
  every factory row of that region with its \<open>factory_id\<close>.
\<close>

definition region_rows :: "row_store \<Rightarrow> string \<Rightarrow> filters \<Rightarrow> row list" where
  "region_rows st rg f =
     concat (map (\<lambda>i. map (\<lambda>fr. i)
                  (filter (\<lambda>fr. sql_eq (i ''factory_id'') (fr ''factory_id'') \<and>
                                fr ''region'' = Some (PyStr rg))
                     (factories_table st)))
               (matching st f))"

text \<open>The timestamp text of a row, as \<open>format_row\<close> puts it into the inspection.\<close>

definition ts_text :: "row \<Rightarrow> string" where
  "ts_text r = str_or_empty (dict_get r ''timestamp'' PyNone)"

text \<open>\<open>ORDER BY timestamp DESC\<close>: the instants do not increase along the list.\<close>

definition newest_first :: "(string \<Rightarrow> int) \<Rightarrow> string list \<Rightarrow> bool" where
  "newest_first inst ts = sorted_wrt (\<lambda>a b. inst b \<le> inst a) ts"

definition data_columns :: "string list" where
  "data_columns =
     [''inspection_id'', ''factory_id'', ''camera_id'', ''timestamp'', ''image_path'',
      ''prediction'', ''confidence_score'', ''defect_type'', ''inference_time_ms'',
      ''model_version'', ''date'']"

text \<open>The \<open>SELECT\<close> list of the page statement.\<close>

definition project :: "row \<Rightarrow> row" where
  "project r = (\<lambda>k. if k \<in> set data_columns then r k else None)"

text \<open>
  \<open>SUM(CASE WHEN prediction = '<v>' THEN 1 ELSE 0 END)\<close> over \<open>rows\<close>: null when there
  is no row, else the number of rows with that prediction.
\<close>

definition count_prediction :: "string \<Rightarrow> row list \<Rightarrow> nat" where
  "count_prediction v rows = length (filter (\<lambda>r. r ''prediction'' = Some (PyStr v)) rows)"

definition sum_cell :: "string \<Rightarrow> row list \<Rightarrow> pyval \<Rightarrow> bool" where
  "sum_cell v rows c =
     (if rows = [] then c = PyNone else py_int c = Inr (int (count_prediction v rows)))"

definition aggregate_row :: "row list \<Rightarrow> row \<Rightarrow> bool" where
  "aggregate_row rows a =
     (\<exists>t ok ko. a = [''total'' \<mapsto> t, ''ok_count'' \<mapsto> ok, ''ko_count'' \<mapsto> ko] \<and>
        py_int t = Inr (int (length rows)) \<and> sum_cell ''OK'' rows ok \<and> sum_cell ''KO'' rows ko)"

text \<open>
  What it means that \<open>wq\<close> answers a statement by executing it on the store \<open>st\<close>: the
  count statement with one row holding the number of matching rows; the page statement
  with the matching rows, newest first, cut to \<open>LIMIT\<close> and \<open>OFFSET\<close>; a statistics
  statement with one row of aggregates.
\<close>

definition answers_count :: "row_store \<Rightarrow> (string \<Rightarrow> row list result) \<Rightarrow> filters \<Rightarrow> bool" where
  "answers_count st wq f =
     (\<exists>c. wq (count_query f) = Inr [[''count'' \<mapsto> c]] \<and>
          py_int c = Inr (int (length (matching st f))))"

definition answers_page ::
  "row_store \<Rightarrow> (string \<Rightarrow> row list result) \<Rightarrow> filters \<Rightarrow> int \<Rightarrow> int \<Rightarrow> bool" where
  "answers_page st wq f pp off =
     (\<exists>rs. mset rs = mset (matching st f) \<and>
           newest_first (instant st) (map ts_text rs) \<and>
           wq (data_query f pp off) = Inr (map project (take (nat pp) (drop (nat off) rs))))"

definition answers_stats :: "(string \<Rightarrow> row list result) \<Rightarrow> string \<Rightarrow> row list \<Rightarrow> bool" where
  "answers_stats wq text rows = (\<exists>a. wq text = Inr [a] \<and> aggregate_row rows a)"

text \<open>A text that can stand between quotes as it is: no quote and no backslash.\<close>

definition plain :: "string \<Rightarrow> bool" where
  "plain s = (CHR 0x27 \<notin> set s \<and> CHR 0x5C \<notin> set s)"

text \<open>
  The store executes the three statements of one request of App1, and of App2. With a
  region, the statistics statement of App2 names \<open>factory_id\<close> without a table where
  both joined tables have that column, so its answer is described only when no factory
  filter is set.
\<close>

definition executes_app1 ::
  "row_store \<Rightarrow> (string \<Rightarrow> row list result) \<Rightarrow> filters \<Rightarrow> int \<Rightarrow> int \<Rightarrow> bool" where
  "executes_app1 st wq f pg pp =
     (answers_count st wq f \<and> answers_page st wq f pp ((pg - 1) * pp) \<and>
      answers_stats wq (stats_query_app1 f) (matching st f))"

definition executes ::
  "row_store \<Rightarrow> (string \<Rightarrow> row list result) \<Rightarrow> filters \<Rightarrow> int \<Rightarrow> int \<Rightarrow> bool" where
  "executes st wq f pg pp =
     (answers_count st wq f \<and> answers_page st wq f pp ((pg - 1) * pp) \<and>
      (case region f of
         None \<Rightarrow> answers_stats wq (stats_query f) (matching st f)
       | Some rg \<Rightarrow>
           if rg = [] then answers_stats wq (stats_query f) (matching st f)
           else plain rg \<and> \<not> truthy (factory f) \<longrightarrow>
                answers_stats wq (stats_query f) (region_rows st rg f)))"

text \<open>
  A Row Store that executes the three statements of one request and knows no other
  statement: rows are ordered by a stable sort, so rows of one instant keep the order
  of the table. \<open>reference_store\<close> serves a request of App2, \<open>reference_store_app1\<close>
  one of App1.
\<close>

definition order_newest_first :: "(string \<Rightarrow> int) \<Rightarrow> row list \<Rightarrow> row list" where
  "order_newest_first inst rows = sort_key (\<lambda>r. - inst (ts_text r)) rows"

definition sum_value :: "string \<Rightarrow> row list \<Rightarrow> pyval" where
  "sum_value v rows = (if rows = [] then PyNone else PyInt (int (count_prediction v rows)))"

definition aggregate_of :: "row list \<Rightarrow> row" where
  "aggregate_of rows =
     [''total'' \<mapsto> PyInt (int (length rows)),
      ''ok_count'' \<mapsto> sum_value ''OK'' rows,
      ''ko_count'' \<mapsto> sum_value ''KO'' rows]"

definition stats_rows :: "row_store \<Rightarrow> filters \<Rightarrow> row list" where
  "stats_rows st f =
     (case region f of
        None \<Rightarrow> matching st f
      | Some rg \<Rightarrow> if rg = [] then matching st f else region_rows st rg f)"

definition answer ::
  "row_store \<Rightarrow> filters \<Rightarrow> int \<Rightarrow> int \<Rightarrow> string \<Rightarrow> row list \<Rightarrow> string \<Rightarrow> row list result" where
  "answer st f pg pp stats_text rows s =
     (if s = count_query f then Inr [[''count'' \<mapsto> PyInt (int (length (matching st f)))]]
      else if s = data_query f pp ((pg - 1) * pp) then
        Inr (map project (take (nat pp) (drop (nat ((pg - 1) * pp))
               (order_newest_first (instant st) (matching st f)))))
      else if s = stats_text then Inr [aggregate_of rows]
      else Inl (Exception ''Query failed: unknown statement''))"

definition reference_store :: "row_store \<Rightarrow> filters \<Rightarrow> int \<Rightarrow> int \<Rightarrow> string \<Rightarrow> row list result" where
  "reference_store st f pg pp = answer st f pg pp (stats_query f) (stats_rows st f)"

definition reference_store_app1 ::
  "row_store \<Rightarrow> filters \<Rightarrow> int \<Rightarrow> int \<Rightarrow> string \<Rightarrow> row list result" where
  "reference_store_app1 st f pg pp = answer st f pg pp (stats_query_app1 f) (matching st f)"

section \<open>Images from the volume\<close>

type_synonym bytes = "char list"

definition ALLOWED_PREFIX :: string where
  "ALLOWED_PREFIX = ''/Volumes/serverless_opm_catalog/opm/quality/images-highres/''"

text \<open>\<open>s.startswith(p)\<close>.\<close>

definition startswith :: "string \<Rightarrow> string \<Rightarrow> bool" where
  "startswith s p = (take (length p) s = p)"

text \<open>
  The Blob Store. \<open>WorkspaceClient().files.download(path)\<close> raises or gives a response;
  the contents of a response are the bytes that can be read from it and, if a read
  after them raises, the exception.
\<close>

record contents =
  content_bytes :: bytes
  read_error :: "exn option"

type_synonym blob_store = "string \<Rightarrow> contents result"

text \<open>\<open>response.contents.read()\<close>: all the bytes, or the exception of the failing read.\<close>

definition read_all :: "contents \<Rightarrow> bytes result" where
  "read_all c = (case read_error c of None \<Rightarrow> Inr (content_bytes c) | Some e \<Rightarrow> Inl e)"











text \<open>
  App1: \<open>load_image_from_volume\<close>, for a path that is \<open>None\<close> or text. The result is a
  value or an exception, with the paths that were passed to the Blob Store. The cache
  of \<open>st.cache_data\<close> around the function is not modelled.
\<close>

definition load_image_from_volume ::
  "blob_store \<Rightarrow> string option \<Rightarrow> bytes option result \<times> string list" where
  "load_image_from_volume download path =
     (case path of
        None \<Rightarrow> (Inr None, [])
      | Some p \<Rightarrow>
          if p = [] then (Inr None, [])
          else if \<not> startswith p ALLOWED_PREFIX then (Inr None, [])
          else
            (case bind_exn (download p) read_all of
               Inl e \<Rightarrow> (Inr None, [p])
             | Inr content \<Rightarrow> (Inr (Some content), [p])))"

text \<open>
  The worker threads: \<open>ImageLoaderThread\<close> of App1 and \<open>PhotoLoader\<close> of the simple app.
  A thread object holds its path and the two fields that \<open>run\<close> may set; \<open>error\<close> holds
  the exception whose \<open>str\<close> the source stores.
\<close>

record loader_thread =
  thread_path :: "string option"
  image_bytes :: "bytes option"
  error :: "exn option"

definition new_thread :: "string option \<Rightarrow> loader_thread" where
  "new_thread p = \<lparr>thread_path = p, image_bytes = None, error = None\<rparr>"

text \<open>\<open>ImageLoaderThread.run\<close>.\<close>

definition run_image_loader :: "blob_store \<Rightarrow> loader_thread \<Rightarrow> loader_thread" where
  "run_image_loader download t =
     (case fst (load_image_from_volume download (thread_path t)) of
        Inr b \<Rightarrow> t\<lparr>image_bytes := b\<rparr>
      | Inl e \<Rightarrow> t\<lparr>error := Some e\<rparr>)"







section \<open>The Lakebase connection\<close>

text \<open>
  The state of a psycopg2 connection as far as transactions go, and the calls made on
  it. \<open>execute\<close> on an idle connection opens a transaction; a statement that fails
  leaves the transaction failed until it is rolled back.
\<close>

datatype txn_status = Idle | InTransaction | InFailedTransaction | Closed

datatype db_call = Cursor | Execute string | Fetchall | Commit | Rollback | CloseCursor | Close

record connection =
  status :: txn_status
  calls :: "db_call list"




















section \<open>An example store\<close>

text \<open>
  Three inspections of two factories. The example store reads two conditions, the
  empty one and \<open>factory_id = 'F1'\<close>, and takes the digits of an ISO text as the
  instant.
\<close>

definition example_row :: "string \<Rightarrow> string \<Rightarrow> string \<Rightarrow> string \<Rightarrow> row" where
  "example_row iid fid ts pred =
     [''inspection_id'' \<mapsto> PyStr iid, ''factory_id'' \<mapsto> PyStr fid,
      ''camera_id'' \<mapsto> PyStr ''CAM-1'', ''timestamp'' \<mapsto> PyStr ts,
      ''image_path'' \<mapsto> PyStr (ALLOWED_PREFIX @ iid @ ''.jpg''),
      ''prediction'' \<mapsto> PyStr pred, ''confidence_score'' \<mapsto> PyStr ''0.93'',
      ''defect_type'' \<mapsto> PyNone, ''inference_time_ms'' \<mapsto> PyStr ''12'',
      ''model_version'' \<mapsto> PyStr ''v1'', ''date'' \<mapsto> PyStr (take 10 ts)]"

definition example_where :: "string \<Rightarrow> row \<Rightarrow> bool" where
  "example_where w r =
     (if w = ''1=1'' then True
      else if w = ''factory_id = '' @ [CHR 0x27] @ ''F1'' @ [CHR 0x27]
        then r ''factory_id'' = Some (PyStr ''F1'')
      else False)"

definition iso_instant :: "string \<Rightarrow> int" where
  "iso_instant s = (case read_nat (filter is_digit s) of None \<Rightarrow> 0 | Some n \<Rightarrow> n)"

definition example_store :: row_store where
  "example_store =
     \<lparr>inspections_table =
        [example_row ''INSP-3'' ''F1'' ''2025-01-03 08:00:00'' ''OK'',
         example_row ''INSP-1'' ''F1'' ''2025-01-01 08:00:00'' ''KO'',
         example_row ''INSP-2'' ''F2'' ''2025-01-02 08:00:00'' ''OK''],
      factories_table =
        [[''factory_id'' \<mapsto> PyStr ''F1'', ''region'' \<mapsto> PyStr ''US''],
         [''factory_id'' \<mapsto> PyStr ''F2'', ''region'' \<mapsto> PyStr ''EU'']],
      where_holds = example_where,
      instant = iso_instant\<rparr>"

text \<open>Two inspections of the same instant, \<open>INSP-B\<close> before \<open>INSP-A\<close> in the table.\<close>

definition tie_store :: row_store where
  "tie_store =
     \<lparr>inspections_table =
        [example_row ''INSP-B'' ''F1'' ''2025-01-01 08:00:00'' ''OK'',
         example_row ''INSP-A'' ''F1'' ''2025-01-01 08:00:00'' ''OK''],
      factories_table = [[''factory_id'' \<mapsto> PyStr ''F1'', ''region'' \<mapsto> PyStr ''US'']],
      where_holds = example_where,
      instant = iso_instant\<rparr>"

text \<open>
  The second page of two of the unfiltered list: the oldest of the three inspections.
\<close>

definition example_page_2 :: envelope where
  "example_page_2 =
     \<lparr>inspections =
        [\<lparr>inspection_id = PyStr ''INSP-1'', factory_id = PyStr ''F1'',
          camera_id = PyStr ''CAM-1'', timestamp = ''2025-01-01 08:00:00'',
          image_path = PyStr (ALLOWED_PREFIX @ ''INSP-1.jpg''),
          prediction_of = PyStr ''KO'', confidence_score = Finite (93 / 100),
          defect_type_of = PyNone, inference_time_ms = 12, model_version = PyStr ''v1'',
          date = ''2025-01-01''\<rparr>],
      pagination_of = \<lparr>page = 2, per_page = 2, total_count = 3, total_pages = 2\<rparr>,
      stats_of = \<lparr>total = 3, filtered = 3, ok_count = 2, ko_count = 1\<rparr>\<rparr>"



text \<open>The first page of two of the inspections of factory \<open>F1\<close>.\<close>

definition example_factory_page :: envelope where
  "example_factory_page =
     \<lparr>inspections =
        [\<lparr>inspection_id = PyStr ''INSP-3'', factory_id = PyStr ''F1'',
          camera_id = PyStr ''CAM-1'', timestamp = ''2025-01-03 08:00:00'',
          image_path = PyStr (ALLOWED_PREFIX @ ''INSP-3.jpg''),
          prediction_of = PyStr ''OK'', confidence_score = Finite (93 / 100),
          defect_type_of = PyNone, inference_time_ms = 12, model_version = PyStr ''v1'',
          date = ''2025-01-03''\<rparr>,
         \<lparr>inspection_id = PyStr ''INSP-1'', factory_id = PyStr ''F1'',
          camera_id = PyStr ''CAM-1'', timestamp = ''2025-01-01 08:00:00'',
          image_path = PyStr (ALLOWED_PREFIX @ ''INSP-1.jpg''),
          prediction_of = PyStr ''KO'', confidence_score = Finite (93 / 100),
          defect_type_of = PyNone, inference_time_ms = 12, model_version = PyStr ''v1'',
          date = ''2025-01-01''\<rparr>],
      pagination_of = \<lparr>page = 1, per_page = 2, total_count = 2, total_pages = 1\<rparr>,
      stats_of = \<lparr>total = 2, filtered = 2, ok_count = 1, ko_count = 1\<rparr>\<rparr>"




text \<open>A response whose first three bytes can be read and whose next read raises.\<close>

definition broken_contents :: contents where
  "broken_contents =
     \<lparr>content_bytes = ''JPE'', read_error = Some (Exception ''connection reset'')\<rparr>"

section \<open>Basic facts\<close>

lemma bind_exn_Inr:
  "bind_exn m k = Inr y \<longleftrightarrow> (\<exists>v. m = Inr v \<and> k v = Inr y)"
  by (cases m) (simp_all add: bind_exn_def)

lemma py_int_PyInt [simp]: "py_int (PyInt n) = Inr n"
  by (simp add: py_int_def)

lemma py_int_PyNone [simp]: "py_int PyNone = Inl TypeError"
  by (simp add: py_int_def)

text \<open>Floor division by a positive number, as used for the number of pages, rounds up.\<close>

lemma ceiling_div:
  assumes "0 < (b::int)"
  shows "(a + b - 1) div b = \<lceil>real_of_int a / real_of_int b\<rceil>"
proof -
  define k where "k = (a + b - 1) div b"
  define r where "r = (a + b - 1) mod b"
  have eq: "k * b + r = a + b - 1"
    unfolding k_def r_def by simp
  have r0: "0 \<le> r" and r1: "r < b"
    unfolding r_def using assms by simp_all
  have 1: "(k - 1) * b < a"
    using eq r0 by (simp add: algebra_simps)
  have 2: "a \<le> k * b"
    using eq r1 by simp
  have "real_of_int ((k - 1) * b) < real_of_int a"
    using 1 by (simp only: of_int_less_iff)
  then have 3: "real_of_int k - 1 < real_of_int a / real_of_int b"
    using assms by (simp add: pos_less_divide_eq)
  have "real_of_int a \<le> real_of_int (k * b)"
    using 2 by (simp only: of_int_le_iff)
  then have 4: "real_of_int a / real_of_int b \<le> real_of_int k"
    using assms by (simp add: pos_divide_le_eq)
  from 3 4 have "\<lceil>real_of_int a / real_of_int b\<rceil> = k"
    by (simp add: ceiling_eq_iff)
  then show ?thesis
    by (simp add: k_def)
qed

lemma pages_zero_iff:
  assumes "0 < (b::int)" and "0 \<le> a"
  shows "(a + b - 1) div b = 0 \<longleftrightarrow> a = 0"
  using assms by (auto simp: zdiv_eq_0_iff)

subsection \<open>What a successful \<open>try\<close> block has done\<close>

lemma inspections_body_Inr:
  assumes "inspections_body wq stx f pg pp = Inr env"
  obtains count_result tc rows stats_result where
    "wq (count_query f) = Inr count_result"
    "first_count count_result = Inr tc"
    "wq (data_query f pp ((pg - 1) * pp)) = Inr rows"
    "format_rows rows = Inr (inspections env)"
    "wq stx = Inr stats_result"
    "pp \<noteq> 0"
    "pagination_of env =
       \<lparr>page = pg, per_page = pp, total_count = tc, total_pages = (tc + pp - 1) div pp\<rparr>"
    "py_int (dict_get (first_stats stats_result) ''total'' (PyInt 0)) = Inr (total (stats_of env))"
    "py_int (dict_get (first_stats stats_result) ''ok_count'' (PyInt 0)) = Inr (ok_count (stats_of env))"
    "py_int (dict_get (first_stats stats_result) ''ko_count'' (PyInt 0)) = Inr (ko_count (stats_of env))"
    "filtered (stats_of env) = tc"
  using assms unfolding inspections_body_def bind_exn_Inr py_floordiv_def
  by (auto split: if_splits)

lemma body_pages:
  assumes "inspections_body wq stx f pg pp = Inr env"
  shows "per_page (pagination_of env) = pp \<and> page (pagination_of env) = pg \<and>
         total_pages (pagination_of env) = (total_count (pagination_of env) + pp - 1) div pp"
  using assms by (rule inspections_body_Inr) simp

lemma get_inspections_Inr:
  "get_inspections wq f pg pp = Inr env \<longleftrightarrow> inspections_body wq (stats_query f) f pg pp = Inr env"
  by (simp add: get_inspections_def split: sum.splits)

lemma load_inspections_cases:
  obtains (success) env where "inspections_body wq (stats_query_app1 f) f pg pp = Inr env"
      "load_inspections wq f pg pp = (None, env)"
  | (failure) e where "inspections_body wq (stats_query_app1 f) f pg pp = Inl e"
      "load_inspections wq f pg pp = (Some e, error_envelope pp)"
  by (cases "inspections_body wq (stats_query_app1 f) f pg pp") (auto simp: load_inspections_def)

lemma format_rows_length: "format_rows rs = Inr xs \<Longrightarrow> length xs = length rs"
  by (induction rs arbitrary: xs) (auto simp: bind_exn_Inr)

lemma format_row_timestamp: "format_row r = Inr i \<Longrightarrow> timestamp i = ts_text r"
  by (auto simp: format_row_def bind_exn_Inr ts_text_def)

lemma format_rows_timestamp: "format_rows rs = Inr xs \<Longrightarrow> map timestamp xs = map ts_text rs"
  by (induction rs arbitrary: xs) (auto simp: bind_exn_Inr format_row_timestamp)

lemma ts_text_project [simp]: "ts_text (project r) = ts_text r"
  by (simp add: ts_text_def project_def dict_get_def data_columns_def)

section \<open>The pagination block\<close>

lemma body_pages_ceiling:
  assumes "1 \<le> pp" and "inspections_body wq stx f pg pp = Inr env"
  shows "total_pages (pagination_of env) =
           \<lceil>real_of_int (total_count (pagination_of env)) / real_of_int (per_page (pagination_of env))\<rceil>
         \<and> (total_count (pagination_of env) = 0 \<longrightarrow> total_pages (pagination_of env) = 0)
         \<and> (0 \<le> total_count (pagination_of env) \<longrightarrow> total_pages (pagination_of env) = 0
              \<longrightarrow> total_count (pagination_of env) = 0)"
proof -
  have pos: "0 < pp" using assms(1) by simp
  note p = body_pages [OF assms(2)]
  show ?thesis
    using p ceiling_div [OF pos, of "total_count (pagination_of env)"]
      pages_zero_iff [OF pos, of "total_count (pagination_of env)"]
    by auto
qed

text \<open>
  C1. In every result of \<open>get_inspections\<close> (App2) and of \<open>load_inspections\<close> (App1), for
  a page size of at least one, \<open>total_pages\<close> is \<open>total_count / per_page\<close> rounded up; it
  is zero when \<open>total_count\<close> is zero, and, \<open>total_count\<close> being a count and so not
  negative, only then.
\<close>

theorem total_pages_ceiling:
  assumes "1 \<le> pp"
  shows "(get_inspections wq f pg pp = Inr env \<longrightarrow>
           total_pages (pagination_of env) =
             \<lceil>real_of_int (total_count (pagination_of env)) / real_of_int (per_page (pagination_of env))\<rceil>
           \<and> (total_count (pagination_of env) = 0 \<longrightarrow> total_pages (pagination_of env) = 0)
           \<and> (0 \<le> total_count (pagination_of env) \<longrightarrow> total_pages (pagination_of env) = 0
                \<longrightarrow> total_count (pagination_of env) = 0))
       \<and> (load_inspections wq f pg pp = (err, env1) \<longrightarrow>
           total_pages (pagination_of env1) =
             \<lceil>real_of_int (total_count (pagination_of env1)) / real_of_int (per_page (pagination_of env1))\<rceil>
           \<and> (total_count (pagination_of env1) = 0 \<longrightarrow> total_pages (pagination_of env1) = 0)
           \<and> (0 \<le> total_count (pagination_of env1) \<longrightarrow> total_pages (pagination_of env1) = 0
                \<longrightarrow> total_count (pagination_of env1) = 0))"
proof (intro conjI impI)
  assume "get_inspections wq f pg pp = Inr env"
  then have body: "inspections_body wq (stats_query f) f pg pp = Inr env"
    by (simp add: get_inspections_Inr)
  note b = body_pages_ceiling [OF assms body]
  from b show "total_pages (pagination_of env) =
      \<lceil>real_of_int (total_count (pagination_of env)) / real_of_int (per_page (pagination_of env))\<rceil>"
    by blast
  from b show "total_count (pagination_of env) = 0 \<Longrightarrow> total_pages (pagination_of env) = 0"
    by blast
  from b show "0 \<le> total_count (pagination_of env) \<Longrightarrow> total_pages (pagination_of env) = 0
      \<Longrightarrow> total_count (pagination_of env) = 0"
    by blast
next
  assume l: "load_inspections wq f pg pp = (err, env1)"
  have "total_pages (pagination_of env1) =
      \<lceil>real_of_int (total_count (pagination_of env1)) / real_of_int (per_page (pagination_of env1))\<rceil>
      \<and> (total_count (pagination_of env1) = 0 \<longrightarrow> total_pages (pagination_of env1) = 0)
      \<and> (0 \<le> total_count (pagination_of env1) \<longrightarrow> total_pages (pagination_of env1) = 0
           \<longrightarrow> total_count (pagination_of env1) = 0)"
  proof (cases rule: load_inspections_cases [of wq f pg pp])
    case (success e)
    with l have "env1 = e" by simp
    with success(1) show ?thesis
      using body_pages_ceiling [OF assms] by blast
  next
    case (failure e)
    with l have "env1 = error_envelope pp" by simp
    then show ?thesis by (simp add: error_envelope_def)
  qed
  then show "total_pages (pagination_of env1) =
      \<lceil>real_of_int (total_count (pagination_of env1)) / real_of_int (per_page (pagination_of env1))\<rceil>"
    and "total_count (pagination_of env1) = 0 \<Longrightarrow> total_pages (pagination_of env1) = 0"
    and "0 \<le> total_count (pagination_of env1) \<Longrightarrow> total_pages (pagination_of env1) = 0
      \<Longrightarrow> total_count (pagination_of env1) = 0"
    by blast+
qed

lemma example_page_2_App2:
  "get_inspections (reference_store example_store no_filters 2 2) no_filters 2 2 = Inr example_page_2"
  by code_simp

theorem total_pages_ceiling_witness:
  "(1::int) \<le> 2
   \<and> get_inspections (reference_store example_store no_filters 2 2) no_filters 2 2 = Inr example_page_2
   \<and> total_count (pagination_of example_page_2) = 3
   \<and> total_pages (pagination_of example_page_2) = \<lceil>real_of_int 3 / real_of_int 2\<rceil>
   \<and> (1::int) \<le> 8
   \<and> load_inspections (\<lambda>s. Inr []) no_filters 1 8 = (None, error_envelope 8)
   \<and> total_count (pagination_of (error_envelope 8)) = 0
   \<and> total_pages (pagination_of (error_envelope 8)) = \<lceil>real_of_int 0 / real_of_int 8\<rceil>"
proof -
  have l: "load_inspections (\<lambda>s. Inr []) no_filters 1 8 = (None, error_envelope 8)"
    by code_simp
  have p: "total_count (pagination_of example_page_2) = 3"
    "per_page (pagination_of example_page_2) = 2"
    "total_count (pagination_of (error_envelope 8)) = 0"
    "per_page (pagination_of (error_envelope 8)) = 8"
    by (simp_all add: example_page_2_def error_envelope_def)
  show ?thesis
    using example_page_2_App2 l p
      total_pages_ceiling [of 2 "reference_store example_store no_filters 2 2" no_filters 2
        example_page_2 None example_page_2]
      total_pages_ceiling [of 8 "\<lambda>s. Inr []" no_filters 1 example_page_2 None "error_envelope 8"]
    by simp
qed

section \<open>The text of the statements\<close>

lemma sublist_prepend: "sublist xs ys \<Longrightarrow> sublist xs (ps @ ys)"
  by (auto simp: sublist_def) (metis append.assoc)

lemma sublist_join_and: "c \<in> set cs \<Longrightarrow> sublist c (join_and cs)"
proof (induction cs rule: join_and.induct)
  case 1
  then show ?case by simp
next
  case (2 x)
  then show ?case by simp
next
  case (3 x y ys)
  show ?case
  proof (cases "c = x")
    case True
    then show ?thesis by simp
  next
    case False
    with 3 have "sublist c (join_and (y # ys))" by simp
    then have "sublist c (x @ '' AND '' @ join_and (y # ys))"
      by (intro sublist_prepend)
    then show ?thesis by simp
  qed
qed

lemma sublist_where_sql: "c \<in> set (where_clauses f) \<Longrightarrow> sublist c (where_sql f)"
  by (auto simp: where_sql_def sublist_join_and)

lemma sublist_count_query: "sublist (where_sql f) (count_query f)"
  unfolding count_query_def by (intro sublist_append_rightI sublist_prepend)

lemma sublist_data_query: "sublist (where_sql f) (data_query f pp off)"
  unfolding data_query_def by (intro sublist_append_rightI sublist_prepend)

lemma sublist_stats_query_app1: "sublist (where_sql f) (stats_query_app1 f)"
  unfolding stats_query_app1_def by (intro sublist_append_rightI sublist_prepend)

lemma sublist_stats_plain: "sublist w (stats_plain_text w)"
  unfolding stats_plain_text_def by (intro sublist_append_rightI sublist_prepend)

lemma sublist_stats_region: "sublist w (stats_region_text rg w)"
  unfolding stats_region_text_def by (intro sublist_append_rightI sublist_prepend)

lemma sublist_stats_region_rg:
  "sublist (''f.region = '' @ [CHR 0x27] @ rg @ [CHR 0x27]) (stats_region_text rg w)"
proof -
  have "\<exists>P S. stats_region_text rg w = P @ (''f.region = '' @ [CHR 0x27] @ rg @ [CHR 0x27]) @ S"
    unfolding stats_region_text_def
    by (rule exI [of _ "nl @ ''                SELECT '' @
     nl @ ''                    COUNT(*) as total,'' @
     nl @ ''                    SUM(CASE WHEN i.prediction = '' @ [CHR 0x27] @ ''OK'' @ [CHR 0x27] @
          '' THEN 1 ELSE 0 END) as ok_count,'' @
     nl @ ''                    SUM(CASE WHEN i.prediction = '' @ [CHR 0x27] @ ''KO'' @ [CHR 0x27] @
          '' THEN 1 ELSE 0 END) as ko_count'' @
     nl @ ''                FROM serverless_opm_catalog.opm.inspections i'' @
     nl @ ''                JOIN serverless_opm_catalog.opm.factories f ON i.factory_id = f.factory_id'' @
     nl @ ''                WHERE ''"], rule exI [of _ "'' AND '' @ w @ nl @ ''            ''"]) simp
  then show ?thesis by (auto simp: sublist_def)
qed

lemma sublist_stats_query: "sublist (where_sql f) (stats_query f)"
  by (simp add: stats_query_def sublist_stats_plain sublist_stats_region split: option.splits)

lemma clause_in_statements:
  assumes "c \<in> set (where_clauses f)"
  shows "sublist c (count_query f)" "sublist c (data_query f pp off)"
    "sublist c (stats_query f)" "sublist c (stats_query_app1 f)"
  using sublist_where_sql [OF assms] sublist_count_query [of f] sublist_data_query [of f pp off]
    sublist_stats_query [of f] sublist_stats_query_app1 [of f]
  by (blast intro: sublist_order.order_trans)+

text \<open>
  The statements of two requests have the same text exactly when their conditions have.
\<close>

lemma count_query_eq_iff: "count_query f = count_query g \<longleftrightarrow> where_sql f = where_sql g"
  by (simp add: count_query_def)

lemma data_query_eq_iff:
  "data_query f pp off = data_query g pp off \<longleftrightarrow> where_sql f = where_sql g"
  by (simp add: data_query_def)

lemma stats_query_app1_eq_iff:
  "stats_query_app1 f = stats_query_app1 g \<longleftrightarrow> where_sql f = where_sql g"
  by (simp add: stats_query_app1_def)

text \<open>
  A value with a quote in it ends the literal and goes on as SQL: the condition for the
  factory \<open>x' OR '1'='1\<close> is \<open>factory_id = 'x' OR '1'='1'\<close>.
\<close>

lemma quote_in_value:
  "where_sql (no_filters\<lparr>factory := Some (''x'' @ [CHR 0x27] @ '' OR '' @ [CHR 0x27] @ ''1'' @
       [CHR 0x27] @ ''='' @ [CHR 0x27] @ ''1'')\<rparr>) =
   ''factory_id = '' @ [CHR 0x27] @ ''x'' @ [CHR 0x27] @ '' OR '' @ [CHR 0x27] @ ''1'' @ [CHR 0x27] @
     ''='' @ [CHR 0x27] @ ''1'' @ [CHR 0x27]"
  by (simp add: where_sql_def where_clauses_def clause_def defect_clause_def no_filters_def)

text \<open>
  C3, as the claim states it: the text sent to the Row Store is the same for every pair
  of FilterSets. It is not: the count statements for the factories \<open>F1\<close> and \<open>F2\<close> differ.
\<close>

theorem query_text_differs:
  "count_query (no_filters\<lparr>factory := Some ''F1''\<rparr>) \<noteq> count_query (no_filters\<lparr>factory := Some ''F2''\<rparr>)"
  by (simp add: count_query_eq_iff where_sql_def where_clauses_def clause_def defect_clause_def
      no_filters_def)

text \<open>
  C3, amended. The filter values are not bound as parameters but copied into the text:
  every present value (a defect type other than \<open>All\<close>) stands between single quotes in
  a clause of the condition, every clause stands in the count, the page and the
  statistics statement, and a region stands in the statistics statement of App2. Two
  FilterSets are sent the same count statement, the same page statement (for the same
  \<open>LIMIT\<close> and \<open>OFFSET\<close>) and the same statistics statement of App1 exactly when they
  yield the same condition.
\<close>

theorem query_text_carries_filter_values:
  "(count_query f = count_query g \<longleftrightarrow> where_sql f = where_sql g)
   \<and> (data_query f pp off = data_query g pp off \<longleftrightarrow> where_sql f = where_sql g)
   \<and> (stats_query_app1 f = stats_query_app1 g \<longleftrightarrow> where_sql f = where_sql g)
   \<and> (\<forall>c \<in> set (where_clauses f).
         sublist c (count_query f) \<and> sublist c (data_query f pp off) \<and>
         sublist c (stats_query f) \<and> sublist c (stats_query_app1 f))
   \<and> (factory f = Some v \<and> v \<noteq> [] \<longrightarrow>
         ''factory_id = '' @ [CHR 0x27] @ v @ [CHR 0x27] \<in> set (where_clauses f))
   \<and> (camera f = Some v \<and> v \<noteq> [] \<longrightarrow>
         ''camera_id = '' @ [CHR 0x27] @ v @ [CHR 0x27] \<in> set (where_clauses f))
   \<and> (prediction f = Some v \<and> v \<noteq> [] \<longrightarrow>
         ''prediction = '' @ [CHR 0x27] @ v @ [CHR 0x27] \<in> set (where_clauses f))
   \<and> (defect_type f = Some v \<and> v \<noteq> [] \<and> v \<noteq> ''All'' \<longrightarrow>
         ''defect_type = '' @ [CHR 0x27] @ v @ [CHR 0x27] \<in> set (where_clauses f))
   \<and> (search f = Some v \<and> v \<noteq> [] \<longrightarrow>
         ''inspection_id LIKE '' @ [CHR 0x27] @ ''%'' @ v @ ''%'' @ [CHR 0x27] \<in> set (where_clauses f))
   \<and> (date_from f = Some v \<and> v \<noteq> [] \<longrightarrow>
         ''date >= '' @ [CHR 0x27] @ v @ [CHR 0x27] \<in> set (where_clauses f))
   \<and> (date_to f = Some v \<and> v \<noteq> [] \<longrightarrow>
         ''date <= '' @ [CHR 0x27] @ v @ [CHR 0x27] \<in> set (where_clauses f))
   \<and> (region f = Some v \<and> v \<noteq> [] \<longrightarrow>
         sublist (''f.region = '' @ [CHR 0x27] @ v @ [CHR 0x27]) (stats_query f))"
proof (intro conjI ballI impI)
  show "count_query f = count_query g \<longleftrightarrow> where_sql f = where_sql g"
    by (rule count_query_eq_iff)
  show "data_query f pp off = data_query g pp off \<longleftrightarrow> where_sql f = where_sql g"
    by (rule data_query_eq_iff)
  show "stats_query_app1 f = stats_query_app1 g \<longleftrightarrow> where_sql f = where_sql g"
    by (rule stats_query_app1_eq_iff)
next
  fix c assume c: "c \<in> set (where_clauses f)"
  show "sublist c (count_query f)" by (rule clause_in_statements [OF c])
  show "sublist c (data_query f pp off)" by (rule clause_in_statements [OF c])
  show "sublist c (stats_query f)" by (rule clause_in_statements [OF c])
  show "sublist c (stats_query_app1 f)" by (rule clause_in_statements [OF c])
next
  assume "factory f = Some v \<and> v \<noteq> []"
  then show "''factory_id = '' @ [CHR 0x27] @ v @ [CHR 0x27] \<in> set (where_clauses f)"
    by (simp add: where_clauses_def clause_def)
next
  assume "camera f = Some v \<and> v \<noteq> []"
  then show "''camera_id = '' @ [CHR 0x27] @ v @ [CHR 0x27] \<in> set (where_clauses f)"
    by (simp add: where_clauses_def clause_def)
next
  assume "prediction f = Some v \<and> v \<noteq> []"
  then show "''prediction = '' @ [CHR 0x27] @ v @ [CHR 0x27] \<in> set (where_clauses f)"
    by (simp add: where_clauses_def clause_def)
next
  assume "defect_type f = Some v \<and> v \<noteq> [] \<and> v \<noteq> ''All''"
  then show "''defect_type = '' @ [CHR 0x27] @ v @ [CHR 0x27] \<in> set (where_clauses f)"
    by (simp add: where_clauses_def defect_clause_def)
next
  assume "search f = Some v \<and> v \<noteq> []"
  then show "''inspection_id LIKE '' @ [CHR 0x27] @ ''%'' @ v @ ''%'' @ [CHR 0x27] \<in> set (where_clauses f)"
    by (simp add: where_clauses_def clause_def)
next
  assume "date_from f = Some v \<and> v \<noteq> []"
  then show "''date >= '' @ [CHR 0x27] @ v @ [CHR 0x27] \<in> set (where_clauses f)"
    by (simp add: where_clauses_def clause_def)
next
  assume "date_to f = Some v \<and> v \<noteq> []"
  then show "''date <= '' @ [CHR 0x27] @ v @ [CHR 0x27] \<in> set (where_clauses f)"
    by (simp add: where_clauses_def clause_def)
next
  assume "region f = Some v \<and> v \<noteq> []"
  then have "stats_query f = stats_region_text v (where_sql f)"
    by (simp add: stats_query_def)
  then show "sublist (''f.region = '' @ [CHR 0x27] @ v @ [CHR 0x27]) (stats_query f)"
    by (simp only: sublist_stats_region_rg)
qed

theorem query_text_carries_filter_values_witness:
  "factory (no_filters\<lparr>factory := Some ''F1''\<rparr>) = Some ''F1'' \<and> ''F1'' \<noteq> []
   \<and> ''factory_id = '' @ [CHR 0x27] @ ''F1'' @ [CHR 0x27] \<in> set (where_clauses (no_filters\<lparr>factory := Some ''F1''\<rparr>))
   \<and> sublist (''factory_id = '' @ [CHR 0x27] @ ''F1'' @ [CHR 0x27]) (count_query (no_filters\<lparr>factory := Some ''F1''\<rparr>))
   \<and> sublist (''factory_id = '' @ [CHR 0x27] @ ''F1'' @ [CHR 0x27]) (data_query (no_filters\<lparr>factory := Some ''F1''\<rparr>) 8 0)
   \<and> sublist (''factory_id = '' @ [CHR 0x27] @ ''F1'' @ [CHR 0x27]) (stats_query (no_filters\<lparr>factory := Some ''F1''\<rparr>))
   \<and> region (no_filters\<lparr>region := Some ''EU''\<rparr>) = Some ''EU''
   \<and> sublist (''f.region = '' @ [CHR 0x27] @ ''EU'' @ [CHR 0x27]) (stats_query (no_filters\<lparr>region := Some ''EU''\<rparr>))"
proof -
  have 1: "factory (no_filters\<lparr>factory := Some ''F1''\<rparr>) = Some ''F1'' \<and> ''F1'' \<noteq> []"
    by simp
  have 2: "region (no_filters\<lparr>region := Some ''EU''\<rparr>) = Some ''EU'' \<and> ''EU'' \<noteq> []"
    by simp
  note a = query_text_carries_filter_values
    [of "no_filters\<lparr>factory := Some ''F1''\<rparr>" no_filters 8 0 "''F1''"]
  note b = query_text_carries_filter_values
    [of "no_filters\<lparr>region := Some ''EU''\<rparr>" no_filters 8 0 "''EU''"]
  from a 1 have m: "''factory_id = '' @ [CHR 0x27] @ ''F1'' @ [CHR 0x27]
      \<in> set (where_clauses (no_filters\<lparr>factory := Some ''F1''\<rparr>))"
    by blast
  from a m have
    "sublist (''factory_id = '' @ [CHR 0x27] @ ''F1'' @ [CHR 0x27]) (count_query (no_filters\<lparr>factory := Some ''F1''\<rparr>))"
    "sublist (''factory_id = '' @ [CHR 0x27] @ ''F1'' @ [CHR 0x27]) (data_query (no_filters\<lparr>factory := Some ''F1''\<rparr>) 8 0)"
    "sublist (''factory_id = '' @ [CHR 0x27] @ ''F1'' @ [CHR 0x27]) (stats_query (no_filters\<lparr>factory := Some ''F1''\<rparr>))"
    by blast+
  moreover from b 2 have
    "sublist (''f.region = '' @ [CHR 0x27] @ ''EU'' @ [CHR 0x27]) (stats_query (no_filters\<lparr>region := Some ''EU''\<rparr>))"
    by blast
  ultimately show ?thesis
    using m 1 2 by blast
qed

text \<open>
  C4. A request with the region \<open>EU\<close> and no other filter: the region adds no clause, the
  count and the page statement are those of the request without any filter, and only
  the statistics statement, a join with the factories, names the region.
\<close>

theorem region_only_in_stats:
  "where_clauses (no_filters\<lparr>region := Some ''EU''\<rparr>) = []
   \<and> where_sql (no_filters\<lparr>region := Some ''EU''\<rparr>) = ''1=1''
   \<and> count_query (no_filters\<lparr>region := Some ''EU''\<rparr>) = count_query no_filters
   \<and> data_query (no_filters\<lparr>region := Some ''EU''\<rparr>) 8 0 = data_query no_filters 8 0
   \<and> stats_query (no_filters\<lparr>region := Some ''EU''\<rparr>) = stats_region_text ''EU'' ''1=1''
   \<and> stats_query no_filters = stats_plain_text ''1=1''
   \<and> stats_query (no_filters\<lparr>region := Some ''EU''\<rparr>) \<noteq> stats_query no_filters"
proof -
  have w: "where_clauses (no_filters\<lparr>region := Some ''EU''\<rparr>) = []" "where_clauses no_filters = []"
    by (simp_all add: where_clauses_def clause_def defect_clause_def no_filters_def)
  then have s: "where_sql (no_filters\<lparr>region := Some ''EU''\<rparr>) = ''1=1''" "where_sql no_filters = ''1=1''"
    by (simp_all add: where_sql_def)
  have d: "stats_region_text ''EU'' ''1=1'' \<noteq> stats_plain_text ''1=1''"
    by (simp add: stats_region_text_def stats_plain_text_def nl_def)
  show ?thesis
    using w s d
    by (simp add: count_query_eq_iff data_query_eq_iff stats_query_def no_filters_def)
qed

section \<open>Images: the allowed prefix\<close>

lemma startswith_Nil [simp]: "\<not> startswith [] ALLOWED_PREFIX"
  by (simp add: startswith_def ALLOWED_PREFIX_def)






text \<open>
  C10. \<open>load_image_from_volume\<close> never raises: its result is always a value. That value
  is \<open>None\<close> for no path, for the empty path, for a path outside the allowed prefix,
  for a download that raises and for a read that raises, whatever the exception; the
  thread that ran it has no error.
\<close>

theorem load_image_never_raises:
  "(\<exists>b calls. load_image_from_volume download p = (Inr b, calls))
   \<and> (p = None \<or> p = Some [] \<longrightarrow> fst (load_image_from_volume download p) = Inr None)
   \<and> (p = Some s \<and> \<not> startswith s ALLOWED_PREFIX \<longrightarrow>
        fst (load_image_from_volume download p) = Inr None)
   \<and> (p = Some s \<and> download s = Inl e \<longrightarrow> fst (load_image_from_volume download p) = Inr None)
   \<and> (p = Some s \<and> download s = Inr response \<and> read_error response = Some e \<longrightarrow>
        fst (load_image_from_volume download p) = Inr None)
   \<and> error (run_image_loader download (new_thread p)) = None"
proof (intro conjI impI)
  show "\<exists>b calls. load_image_from_volume download p = (Inr b, calls)"
    by (simp add: load_image_from_volume_def split: option.splits sum.splits)
  then show "error (run_image_loader download (new_thread p)) = None"
    by (auto simp: run_image_loader_def new_thread_def)
next
  assume "p = None \<or> p = Some []"
  then show "fst (load_image_from_volume download p) = Inr None"
    by (auto simp: load_image_from_volume_def)
next
  assume "p = Some s \<and> \<not> startswith s ALLOWED_PREFIX"
  then show "fst (load_image_from_volume download p) = Inr None"
    by (simp add: load_image_from_volume_def)
next
  assume "p = Some s \<and> download s = Inl e"
  then show "fst (load_image_from_volume download p) = Inr None"
    by (simp add: load_image_from_volume_def bind_exn_def)
next
  assume "p = Some s \<and> download s = Inr response \<and> read_error response = Some e"
  then show "fst (load_image_from_volume download p) = Inr None"
    by (simp add: load_image_from_volume_def bind_exn_def read_all_def)
qed

theorem load_image_never_raises_witness:
  "fst (load_image_from_volume (\<lambda>p. Inl (Exception ''not found'')) (Some [])) = Inr None
   \<and> \<not> startswith ''/tmp/x.png'' ALLOWED_PREFIX
   \<and> fst (load_image_from_volume (\<lambda>p. Inl (Exception ''not found'')) (Some ''/tmp/x.png'')) = Inr None
   \<and> fst (load_image_from_volume (\<lambda>p. Inl (Exception ''not found''))
        (Some (ALLOWED_PREFIX @ ''a.jpg''))) = Inr None
   \<and> fst (load_image_from_volume (\<lambda>p. Inl TypeError) (Some (ALLOWED_PREFIX @ ''a.jpg''))) = Inr None
   \<and> fst (load_image_from_volume (\<lambda>p. Inr broken_contents) (Some (ALLOWED_PREFIX @ ''a.jpg''))) =
       Inr None"
proof -
  have 1: "\<not> startswith ''/tmp/x.png'' ALLOWED_PREFIX"
    by (simp add: startswith_def ALLOWED_PREFIX_def)
  have 2: "read_error broken_contents = Some (Exception ''connection reset'')"
    by (simp add: broken_contents_def)
  show ?thesis
    using 1 2
      load_image_never_raises [of "\<lambda>p. Inl (Exception ''not found'')" "Some []" "[]" e response]
      load_image_never_raises [of "\<lambda>p. Inl (Exception ''not found'')" "Some ''/tmp/x.png''"
        "''/tmp/x.png''" e response]
      load_image_never_raises [of "\<lambda>p. Inl (Exception ''not found'')"
        "Some (ALLOWED_PREFIX @ ''a.jpg'')" "ALLOWED_PREFIX @ ''a.jpg''" "Exception ''not found''"
        response]
      load_image_never_raises [of "\<lambda>p. Inl TypeError"
        "Some (ALLOWED_PREFIX @ ''a.jpg'')" "ALLOWED_PREFIX @ ''a.jpg''" TypeError response]
      load_image_never_raises [of "\<lambda>p. Inr broken_contents"
        "Some (ALLOWED_PREFIX @ ''a.jpg'')" "ALLOWED_PREFIX @ ''a.jpg''"
        "Exception ''connection reset''" broken_contents]
    by simp
qed

section \<open>Lakebase: commit or rollback\<close>








section \<open>Results under a Row Store that executes the statements\<close>

subsection \<open>The reference store executes them\<close>

lemma count_ne_data: "count_query f \<noteq> data_query f pp off"
  by (simp add: count_query_def data_query_def nl_def)

lemma count_ne_stats: "count_query f \<noteq> stats_query f"
  by (simp add: count_query_def stats_query_def stats_plain_text_def stats_region_text_def nl_def
      split: option.splits)

lemma data_ne_stats: "data_query f pp off \<noteq> stats_query f"
  by (simp add: data_query_def stats_query_def stats_plain_text_def stats_region_text_def nl_def
      split: option.splits)

lemma count_ne_stats_app1: "count_query f \<noteq> stats_query_app1 f"
  by (simp add: count_query_def stats_query_app1_def nl_def)

lemma data_ne_stats_app1: "data_query f pp off \<noteq> stats_query_app1 f"
  by (simp add: data_query_def stats_query_app1_def nl_def)

lemma newest_first_order: "newest_first inst (map ts_text (order_newest_first inst rows))"
proof -
  have "sorted (map (\<lambda>r. - inst (ts_text r)) (order_newest_first inst rows))"
    unfolding order_newest_first_def by (rule sorted_sort_key)
  then show ?thesis
    unfolding newest_first_def by (simp add: sorted_wrt_map sorted_map)
qed

lemma sum_cell_sum_value: "sum_cell v rows (sum_value v rows)"
  by (simp add: sum_cell_def sum_value_def)

lemma aggregate_row_aggregate_of: "aggregate_row rows (aggregate_of rows)"
  unfolding aggregate_row_def aggregate_of_def
  by (rule exI [of _ "PyInt (int (length rows))"], rule exI [of _ "sum_value ''OK'' rows"],
      rule exI [of _ "sum_value ''KO'' rows"]) (simp add: sum_cell_sum_value)

lemma answer_answers_count: "answers_count st (answer st f pg pp stx rows) f"
  unfolding answers_count_def
  by (rule exI [of _ "PyInt (int (length (matching st f)))"]) (simp add: answer_def)

lemma answer_answers_page: "answers_page st (answer st f pg pp stx rows) f pp ((pg - 1) * pp)"
  unfolding answers_page_def
proof (intro exI conjI)
  show "mset (order_newest_first (instant st) (matching st f)) = mset (matching st f)"
    by (simp add: order_newest_first_def)
  show "newest_first (instant st) (map ts_text (order_newest_first (instant st) (matching st f)))"
    by (rule newest_first_order)
  show "answer st f pg pp stx rows (data_query f pp ((pg - 1) * pp)) =
     Inr (map project (take (nat pp) (drop (nat ((pg - 1) * pp))
            (order_newest_first (instant st) (matching st f)))))"
    using count_ne_data [of f pp "(pg - 1) * pp"] by (simp add: answer_def)
qed

lemma answer_answers_stats:
  assumes "count_query f \<noteq> stx" and "data_query f pp ((pg - 1) * pp) \<noteq> stx"
  shows "answers_stats (answer st f pg pp stx rows) stx rows"
  unfolding answers_stats_def
  by (rule exI [of _ "aggregate_of rows"]) (use assms in \<open>simp add: answer_def aggregate_row_aggregate_of\<close>)

lemma reference_store_executes: "executes st (reference_store st f pg pp) f pg pp"
  using answer_answers_count [of st f pg pp "stats_query f" "stats_rows st f"]
    answer_answers_page [of st f pg pp "stats_query f" "stats_rows st f"]
    answer_answers_stats [OF count_ne_stats data_ne_stats, where st = st and rows = "stats_rows st f"
      and f = f and pp = pp and pg = pg]
  by (auto simp: executes_def reference_store_def stats_rows_def split: option.splits)

lemma reference_store_app1_executes:
  "executes_app1 st (reference_store_app1 st f pg pp) f pg pp"
  using answer_answers_count [of st f pg pp "stats_query_app1 f" "matching st f"]
    answer_answers_page [of st f pg pp "stats_query_app1 f" "matching st f"]
    answer_answers_stats [OF count_ne_stats_app1 data_ne_stats_app1, where st = st
      and rows = "matching st f" and f = f and pp = pp and pg = pg]
  by (simp add: executes_app1_def reference_store_app1_def)

subsection \<open>The \<open>try\<close> block under such a store\<close>

lemma body_total_count:
  assumes "answers_count st wq f" and "inspections_body wq stx f pg pp = Inr env"
  shows "total_count (pagination_of env) = int (length (matching st f))"
proof -
  from assms(1) obtain c where c: "wq (count_query f) = Inr [[''count'' \<mapsto> c]]"
    "py_int c = Inr (int (length (matching st f)))"
    unfolding answers_count_def by blast
  from assms(2) show ?thesis
  proof (rule inspections_body_Inr)
    fix count_result tc
    assume "wq (count_query f) = Inr count_result" "first_count count_result = Inr tc"
      "pagination_of env =
         \<lparr>page = pg, per_page = pp, total_count = tc, total_pages = (tc + pp - 1) div pp\<rparr>"
    with c show ?thesis by (simp add: first_count_def dict_get_def)
  qed
qed

lemma body_page_rows:
  assumes "answers_page st wq f pp ((pg - 1) * pp)" and "inspections_body wq stx f pg pp = Inr env"
  obtains rs where "mset rs = mset (matching st f)"
    "newest_first (instant st) (map ts_text rs)"
    "format_rows (map project (take (nat pp) (drop (nat ((pg - 1) * pp)) rs))) = Inr (inspections env)"
proof -
  from assms(1) obtain rs where rs: "mset rs = mset (matching st f)"
    "newest_first (instant st) (map ts_text rs)"
    "wq (data_query f pp ((pg - 1) * pp)) =
       Inr (map project (take (nat pp) (drop (nat ((pg - 1) * pp)) rs)))"
    unfolding answers_page_def by blast
  from assms(2)
  have "format_rows (map project (take (nat pp) (drop (nat ((pg - 1) * pp)) rs))) = Inr (inspections env)"
    by (rule inspections_body_Inr) (use rs(3) in simp)
  with rs(1,2) show ?thesis by (rule that)
qed

lemma slice_length:
  assumes "0 \<le> off" and "0 \<le> pp"
  shows "int (length (take (nat pp) (drop (nat off) (rs :: 'a list)))) =
           min pp (max 0 (int (length rs) - off))"
  using assms by (auto simp: min_def max_def)

lemma body_slice_length:
  assumes "answers_count st wq f" and "answers_page st wq f pp ((pg - 1) * pp)"
    and "1 \<le> pg" and "1 \<le> pp"
    and body: "inspections_body wq stx f pg pp = Inr env"
  shows "int (length (inspections env)) =
           min pp (max 0 (total_count (pagination_of env) - (pg - 1) * pp))"
proof -
  from assms(2) body obtain rs where rs: "mset rs = mset (matching st f)"
    "format_rows (map project (take (nat pp) (drop (nat ((pg - 1) * pp)) rs))) = Inr (inspections env)"
    by (rule body_page_rows)
  have len: "length rs = length (matching st f)"
    using rs(1) by (metis size_mset)
  have off: "0 \<le> (pg - 1) * pp"
    using assms(3,4) by simp
  have "int (length (inspections env)) =
      int (length (take (nat pp) (drop (nat ((pg - 1) * pp)) rs)))"
    using format_rows_length [OF rs(2)] by simp
  also have "\<dots> = min pp (max 0 (int (length rs) - (pg - 1) * pp))"
    using off assms(4) by (intro slice_length) simp_all
  finally show ?thesis
    using body_total_count [OF assms(1) body] len by simp
qed

lemma body_newest_first:
  assumes "answers_page st wq f pp ((pg - 1) * pp)"
    and body: "inspections_body wq stx f pg pp = Inr env"
  shows "newest_first (instant st) (map timestamp (inspections env))"
proof -
  from assms obtain rs where rs: "newest_first (instant st) (map ts_text rs)"
    "format_rows (map project (take (nat pp) (drop (nat ((pg - 1) * pp)) rs))) = Inr (inspections env)"
    by (rule body_page_rows)
  have "map timestamp (inspections env) =
      take (nat pp) (drop (nat ((pg - 1) * pp)) (map ts_text rs))"
    using format_rows_timestamp [OF rs(2)] by (simp add: comp_def take_map drop_map)
  moreover
  have "newest_first (instant st) (take (nat pp) (drop (nat ((pg - 1) * pp)) (map ts_text rs)))"
    using rs(1) unfolding newest_first_def by (intro sorted_wrt_take sorted_wrt_drop)
  ultimately show ?thesis by simp
qed

lemma count_prediction_le:
  "count_prediction ''OK'' rows + count_prediction ''KO'' rows \<le> length rows"
  unfolding count_prediction_def by (induction rows) auto

lemma count_prediction_eq:
  "\<forall>r \<in> set rows. r ''prediction'' = Some (PyStr ''OK'') \<or> r ''prediction'' = Some (PyStr ''KO'')
   \<Longrightarrow> count_prediction ''OK'' rows + count_prediction ''KO'' rows = length rows"
  unfolding count_prediction_def by (induction rows) auto

lemma body_stats:
  assumes "answers_stats wq stx rows" and body: "inspections_body wq stx f pg pp = Inr env"
  shows "rows \<noteq> [] \<and> total (stats_of env) = int (length rows) \<and>
         ok_count (stats_of env) = int (count_prediction ''OK'' rows) \<and>
         ko_count (stats_of env) = int (count_prediction ''KO'' rows)"
proof -
  from assms(1) obtain t ok ko where a:
    "wq stx = Inr [[''total'' \<mapsto> t, ''ok_count'' \<mapsto> ok, ''ko_count'' \<mapsto> ko]]"
    "py_int t = Inr (int (length rows))" "sum_cell ''OK'' rows ok" "sum_cell ''KO'' rows ko"
    unfolding answers_stats_def aggregate_row_def by blast
  from body show ?thesis
  proof (rule inspections_body_Inr)
    fix stats_result
    assume sr: "wq stx = Inr stats_result"
      and t: "py_int (dict_get (first_stats stats_result) ''total'' (PyInt 0)) = Inr (total (stats_of env))"
      and ok: "py_int (dict_get (first_stats stats_result) ''ok_count'' (PyInt 0)) = Inr (ok_count (stats_of env))"
      and ko: "py_int (dict_get (first_stats stats_result) ''ko_count'' (PyInt 0)) = Inr (ko_count (stats_of env))"
    from sr a(1)
    have fs: "first_stats stats_result = [''total'' \<mapsto> t, ''ok_count'' \<mapsto> ok, ''ko_count'' \<mapsto> ko]"
      by (auto simp: first_stats_def)
    have t': "py_int t = Inr (total (stats_of env))"
      using t by (simp add: fs dict_get_def)
    have ok': "py_int ok = Inr (ok_count (stats_of env))"
      using ok by (simp add: fs dict_get_def)
    have ko': "py_int ko = Inr (ko_count (stats_of env))"
      using ko by (simp add: fs dict_get_def)
    have ne: "rows \<noteq> []"
      using a(3) ok' by (auto simp: sum_cell_def)
    show ?thesis
      using ne t' ok' ko' a(2,3,4) by (simp add: sum_cell_def)
  qed
qed

section \<open>The page slice\<close>

lemma slice_length_App2:
  assumes "executes st wq f pg pp" and "1 \<le> pg" and "1 \<le> pp"
    and "get_inspections wq f pg pp = Inr env"
  shows "int (length (inspections env)) =
           min pp (max 0 (total_count (pagination_of env) - (pg - 1) * pp))"
proof -
  from assms(1) have "answers_count st wq f" "answers_page st wq f pp ((pg - 1) * pp)"
    by (simp_all add: executes_def)
  then show ?thesis
    using assms(2,3) assms(4) [unfolded get_inspections_Inr] by (rule body_slice_length)
qed

lemma slice_length_App1:
  assumes "executes_app1 st wq f pg pp" and "1 \<le> pg" and "1 \<le> pp"
    and "load_inspections wq f pg pp = (err, env)"
  shows "int (length (inspections env)) =
           min pp (max 0 (total_count (pagination_of env) - (pg - 1) * pp))"
proof (cases rule: load_inspections_cases [of wq f pg pp])
  case (success e)
  from assms(1) have "answers_count st wq f" "answers_page st wq f pp ((pg - 1) * pp)"
    by (simp_all add: executes_app1_def)
  then have "int (length (inspections e)) =
      min pp (max 0 (total_count (pagination_of e) - (pg - 1) * pp))"
    using assms(2,3) success(1) by (rule body_slice_length)
  with success(2) assms(4) show ?thesis by simp
next
  case (failure e)
  have "0 \<le> (pg - 1) * pp"
    using assms(2,3) by simp
  with failure(2) assms(3,4) show ?thesis
    by (auto simp: error_envelope_def)
qed

lemma le_pages_mult:
  assumes "0 < (b::int)"
  shows "a \<le> ((a + b - 1) div b) * b"
proof -
  have "(a + b - 1) mod b < b"
    using assms by simp
  moreover have "((a + b - 1) div b) * b + (a + b - 1) mod b = a + b - 1"
    by simp
  ultimately show ?thesis by linarith
qed

text \<open>
  A page beyond the last one, when the statistics statement has the predicate of the
  count statement and the filter matches a row: the \<open>try\<close> block returns the empty
  slice with the pagination block and the statistics.
\<close>

lemma body_page_beyond_last:
  assumes cnt: "answers_count st wq f" and pag: "answers_page st wq f pp ((pg - 1) * pp)"
    and sta: "answers_stats wq stx (matching st f)"
    and pp: "1 \<le> pp" and ne: "matching st f \<noteq> []"
    and beyond: "(int (length (matching st f)) + pp - 1) div pp < pg"
  shows "inspections_body wq stx f pg pp =
     Inr \<lparr>inspections = [],
          pagination_of = \<lparr>page = pg, per_page = pp, total_count = int (length (matching st f)),
            total_pages = (int (length (matching st f)) + pp - 1) div pp\<rparr>,
          stats_of = \<lparr>total = int (length (matching st f)),
            filtered = int (length (matching st f)),
            ok_count = int (count_prediction ''OK'' (matching st f)),
            ko_count = int (count_prediction ''KO'' (matching st f))\<rparr>\<rparr>"
proof -
  define n where "n = int (length (matching st f))"
  from cnt obtain c where c: "wq (count_query f) = Inr [[''count'' \<mapsto> c]]" "py_int c = Inr n"
    unfolding answers_count_def n_def by blast
  from pag obtain rs where rs: "mset rs = mset (matching st f)"
    "wq (data_query f pp ((pg - 1) * pp)) =
       Inr (map project (take (nat pp) (drop (nat ((pg - 1) * pp)) rs)))"
    unfolding answers_page_def by blast
  from sta obtain t ok ko where a:
    "wq stx = Inr [[''total'' \<mapsto> t, ''ok_count'' \<mapsto> ok, ''ko_count'' \<mapsto> ko]]"
    "py_int t = Inr n" "sum_cell ''OK'' (matching st f) ok" "sum_cell ''KO'' (matching st f) ko"
    unfolding answers_stats_def aggregate_row_def n_def by blast
  have len: "int (length rs) = n"
    using rs(1) unfolding n_def by (metis size_mset)
  have pos: "0 < pp" using pp by simp
  have "n \<le> ((n + pp - 1) div pp) * pp"
    using pos by (rule le_pages_mult)
  also have "\<dots> \<le> (pg - 1) * pp"
    using beyond pos unfolding n_def by (intro mult_right_mono) simp_all
  finally have "length rs \<le> nat ((pg - 1) * pp)"
    using len by simp
  then have rows: "wq (data_query f pp ((pg - 1) * pp)) = Inr []"
    using rs(2) by simp
  have ok: "py_int ok = Inr (int (count_prediction ''OK'' (matching st f)))"
    and ko: "py_int ko = Inr (int (count_prediction ''KO'' (matching st f)))"
    using a(3,4) ne by (simp_all add: sum_cell_def)
  show ?thesis
    using c rows a(1,2) ok ko pos
    by (simp add: inspections_body_def bind_exn_def first_count_def first_stats_def dict_get_def
        py_floordiv_def n_def)
qed

lemma page_beyond_last_App1:
  assumes "executes_app1 st wq f pg pp" and "1 \<le> pp" and "matching st f \<noteq> []"
    and "(int (length (matching st f)) + pp - 1) div pp < pg"
  shows "load_inspections wq f pg pp =
     (None,
      \<lparr>inspections = [],
       pagination_of = \<lparr>page = pg, per_page = pp, total_count = int (length (matching st f)),
         total_pages = (int (length (matching st f)) + pp - 1) div pp\<rparr>,
       stats_of = \<lparr>total = int (length (matching st f)),
         filtered = int (length (matching st f)),
         ok_count = int (count_prediction ''OK'' (matching st f)),
         ko_count = int (count_prediction ''KO'' (matching st f))\<rparr>\<rparr>)"
proof -
  from assms(1) have "answers_count st wq f" "answers_page st wq f pp ((pg - 1) * pp)"
    "answers_stats wq (stats_query_app1 f) (matching st f)"
    by (simp_all add: executes_app1_def)
  from body_page_beyond_last [OF this assms(2,3,4)] show ?thesis
    by (simp add: load_inspections_def)
qed

lemma page_beyond_last_App2_without_region:
  assumes "executes st wq f pg pp" and "\<not> truthy (region f)"
    and "1 \<le> pp" and "matching st f \<noteq> []"
    and "(int (length (matching st f)) + pp - 1) div pp < pg"
  shows "get_inspections wq f pg pp =
     Inr \<lparr>inspections = [],
          pagination_of = \<lparr>page = pg, per_page = pp, total_count = int (length (matching st f)),
            total_pages = (int (length (matching st f)) + pp - 1) div pp\<rparr>,
          stats_of = \<lparr>total = int (length (matching st f)),
            filtered = int (length (matching st f)),
            ok_count = int (count_prediction ''OK'' (matching st f)),
            ko_count = int (count_prediction ''KO'' (matching st f))\<rparr>\<rparr>"
proof -
  from assms(1,2) have "answers_count st wq f" "answers_page st wq f pp ((pg - 1) * pp)"
    "answers_stats wq (stats_query f) (matching st f)"
    by (auto simp: executes_def truthy_def split: option.splits if_splits)
  from body_page_beyond_last [OF this assms(3,4,5)] show ?thesis
    by (simp add: get_inspections_def)
qed

text \<open>
  C2. The example store holds three inspections and no factory of the region \<open>APAC\<close>. A
  request for page 3 of 2 with that region: the count statement, which has no region,
  counts 3, so there are 2 pages and page 3 is beyond the last; the statistics
  statement joins no row, its sums are null, \<open>int(None)\<close> raises and the request ends
  with the HTTP error 500. The same request without the region returns the empty slice
  with its pagination block.
\<close>

theorem page_beyond_last_fails_with_region:
  "map_sum id (map (\<lambda>r. r ''count''))
     (reference_store example_store (no_filters\<lparr>region := Some ''APAC''\<rparr>) 3 2
        (count_query (no_filters\<lparr>region := Some ''APAC''\<rparr>))) = Inr [Some (PyInt 3)]
   \<and> map_sum id (map (\<lambda>r. (r ''total'', r ''ok_count'', r ''ko_count'')))
     (reference_store example_store (no_filters\<lparr>region := Some ''APAC''\<rparr>) 3 2
        (stats_query (no_filters\<lparr>region := Some ''APAC''\<rparr>))) =
     Inr [(Some (PyInt 0), Some PyNone, Some PyNone)]
   \<and> get_inspections (reference_store example_store (no_filters\<lparr>region := Some ''APAC''\<rparr>) 3 2)
     (no_filters\<lparr>region := Some ''APAC''\<rparr>) 3 2 =
     Inl (HTTPException 500 (Failed ''Failed to load inspections: '' TypeError))
   \<and> get_inspections (reference_store example_store no_filters 3 2) no_filters 3 2 =
     Inr \<lparr>inspections = [],
          pagination_of = \<lparr>page = 3, per_page = 2, total_count = 3, total_pages = 2\<rparr>,
          stats_of = \<lparr>total = 3, filtered = 3, ok_count = 2, ko_count = 1\<rparr>\<rparr>"
proof (intro conjI)
  show "map_sum id (map (\<lambda>r. r ''count''))
     (reference_store example_store (no_filters\<lparr>region := Some ''APAC''\<rparr>) 3 2
        (count_query (no_filters\<lparr>region := Some ''APAC''\<rparr>))) = Inr [Some (PyInt 3)]"
    by code_simp
  show "map_sum id (map (\<lambda>r. (r ''total'', r ''ok_count'', r ''ko_count'')))
     (reference_store example_store (no_filters\<lparr>region := Some ''APAC''\<rparr>) 3 2
        (stats_query (no_filters\<lparr>region := Some ''APAC''\<rparr>))) =
     Inr [(Some (PyInt 0), Some PyNone, Some PyNone)]"
    by code_simp
  show "get_inspections (reference_store example_store (no_filters\<lparr>region := Some ''APAC''\<rparr>) 3 2)
     (no_filters\<lparr>region := Some ''APAC''\<rparr>) 3 2 =
     Inl (HTTPException 500 (Failed ''Failed to load inspections: '' TypeError))"
    by code_simp
  show "get_inspections (reference_store example_store no_filters 3 2) no_filters 3 2 =
     Inr \<lparr>inspections = [],
          pagination_of = \<lparr>page = 3, per_page = 2, total_count = 3, total_pages = 2\<rparr>,
          stats_of = \<lparr>total = 3, filtered = 3, ok_count = 2, ko_count = 1\<rparr>\<rparr>"
    by code_simp
qed

section \<open>The statistics\<close>

text \<open>Whatever the Row Store answers, \<open>filtered\<close> is \<open>total_count\<close>.\<close>

lemma filtered_is_total_count:
  "(get_inspections wq f pg pp = Inr env \<longrightarrow>
      filtered (stats_of env) = total_count (pagination_of env))
   \<and> filtered (stats_of (snd (load_inspections wq f pg pp))) =
       total_count (pagination_of (snd (load_inspections wq f pg pp)))"
proof
  show "get_inspections wq f pg pp = Inr env \<longrightarrow>
      filtered (stats_of env) = total_count (pagination_of env)"
  proof
    assume "get_inspections wq f pg pp = Inr env"
    then have "inspections_body wq (stats_query f) f pg pp = Inr env"
      by (simp add: get_inspections_Inr)
    then show "filtered (stats_of env) = total_count (pagination_of env)"
      by (rule inspections_body_Inr) simp
  qed
  show "filtered (stats_of (snd (load_inspections wq f pg pp))) =
       total_count (pagination_of (snd (load_inspections wq f pg pp)))"
  proof (cases rule: load_inspections_cases [of wq f pg pp])
    case (success e)
    from success(1) have "filtered (stats_of e) = total_count (pagination_of e)"
      by (rule inspections_body_Inr) simp
    with success(2) show ?thesis by simp
  next
    case (failure e)
    then show ?thesis by (simp add: error_envelope_def)
  qed
qed

text \<open>
  Both statistics statements count \<open>total\<close> under the condition of the request: after
  \<open>COUNT(*) as total\<close> and the two sums they end with \<open>WHERE\<close> and that condition.
\<close>

lemma stats_statements_end:
  "suffix (nl @ ''            FROM serverless_opm_catalog.opm.inspections'' @
           nl @ ''            WHERE '' @ where_sql f @ nl @ ''        '') (stats_query_app1 f)
   \<and> suffix (nl @ ''                FROM serverless_opm_catalog.opm.inspections'' @
           nl @ ''                WHERE '' @ w @ nl @ ''            '') (stats_plain_text w)"
  unfolding stats_query_app1_def stats_plain_text_def suffix_def
  by (intro conjI; simp)

lemma example_factory_page_App2:
  "get_inspections (reference_store example_store (no_filters\<lparr>factory := Some ''F1''\<rparr>) 1 2)
     (no_filters\<lparr>factory := Some ''F1''\<rparr>) 1 2 = Inr example_factory_page"
  by code_simp

lemma example_factory_page_App1:
  "load_inspections (reference_store_app1 example_store (no_filters\<lparr>factory := Some ''F1''\<rparr>) 1 2)
     (no_filters\<lparr>factory := Some ''F1''\<rparr>) 1 2 = (None, example_factory_page)"
  by code_simp

text \<open>
  C5. The store holds three inspections, two of them of factory \<open>F1\<close>. A request with
  the filter for factory \<open>F1\<close> gets, from both applications, \<open>total = 2\<close>, the same as
  \<open>filtered\<close>: \<open>total\<close> is counted under the filter and is not the number of all records,
  which App1 shows as its total beside the filtered results. With the region \<open>US\<close> and
  no other filter App2 returns \<open>filtered = 3\<close> and \<open>total = 2\<close>.
\<close>

theorem stats_total_is_not_all_records:
  "length (inspections_table example_store) = 3
   \<and> get_inspections (reference_store example_store (no_filters\<lparr>factory := Some ''F1''\<rparr>) 1 2)
        (no_filters\<lparr>factory := Some ''F1''\<rparr>) 1 2 = Inr example_factory_page
   \<and> load_inspections (reference_store_app1 example_store (no_filters\<lparr>factory := Some ''F1''\<rparr>) 1 2)
        (no_filters\<lparr>factory := Some ''F1''\<rparr>) 1 2 = (None, example_factory_page)
   \<and> stats_of example_factory_page = \<lparr>total = 2, filtered = 2, ok_count = 1, ko_count = 1\<rparr>
   \<and> map_sum id stats_of
        (get_inspections (reference_store example_store (no_filters\<lparr>region := Some ''US''\<rparr>) 1 2)
           (no_filters\<lparr>region := Some ''US''\<rparr>) 1 2) =
      Inr \<lparr>total = 2, filtered = 3, ok_count = 1, ko_count = 1\<rparr>"
proof (intro conjI)
  show "length (inspections_table example_store) = 3"
    by (simp add: example_store_def)
  show "get_inspections (reference_store example_store (no_filters\<lparr>factory := Some ''F1''\<rparr>) 1 2)
        (no_filters\<lparr>factory := Some ''F1''\<rparr>) 1 2 = Inr example_factory_page"
    by (rule example_factory_page_App2)
  show "load_inspections (reference_store_app1 example_store (no_filters\<lparr>factory := Some ''F1''\<rparr>) 1 2)
        (no_filters\<lparr>factory := Some ''F1''\<rparr>) 1 2 = (None, example_factory_page)"
    by (rule example_factory_page_App1)
  show "stats_of example_factory_page = \<lparr>total = 2, filtered = 2, ok_count = 1, ko_count = 1\<rparr>"
    by (simp add: example_factory_page_def)
  show "map_sum id stats_of
        (get_inspections (reference_store example_store (no_filters\<lparr>region := Some ''US''\<rparr>) 1 2)
           (no_filters\<lparr>region := Some ''US''\<rparr>) 1 2) =
      Inr \<lparr>total = 2, filtered = 3, ok_count = 1, ko_count = 1\<rparr>"
    by code_simp
qed

section \<open>The order of the slice\<close>

lemma format_row_inspection_id:
  "format_row r = Inr i \<Longrightarrow> inspection_id i = dict_get r ''inspection_id'' PyNone"
  by (auto simp: format_row_def bind_exn_Inr)

lemma format_rows_inspection_id:
  "format_rows rs = Inr xs \<Longrightarrow>
     map inspection_id xs = map (\<lambda>r. dict_get r ''inspection_id'' PyNone) rs"
  by (induction rs arbitrary: xs) (auto simp: bind_exn_Inr format_row_inspection_id)

text \<open>After the condition, the page statement has the one sort key and the limits.\<close>

lemma data_query_ends:
  "suffix (nl @ ''            WHERE '' @ where_sql f @
           nl @ ''            ORDER BY timestamp DESC'' @
           nl @ ''            LIMIT '' @ str_int pp @ '' OFFSET '' @ str_int off @
           nl @ ''        '') (data_query f pp off)"
  unfolding data_query_def suffix_def by simp

lemma body_delivered_order:
  assumes "inspections_body wq stx f pg pp = Inr env"
  shows "\<exists>rows. wq (data_query f pp ((pg - 1) * pp)) = Inr rows
    \<and> map inspection_id (inspections env) = map (\<lambda>r. dict_get r ''inspection_id'' PyNone) rows
    \<and> map timestamp (inspections env) = map ts_text rows
    \<and> (newest_first inst (map ts_text rows) \<longrightarrow>
         newest_first inst (map timestamp (inspections env)))"
  using assms
proof (rule inspections_body_Inr)
  fix rows
  assume rows: "wq (data_query f pp ((pg - 1) * pp)) = Inr rows"
    and fmt: "format_rows rows = Inr (inspections env)"
  have "map inspection_id (inspections env) = map (\<lambda>r. dict_get r ''inspection_id'' PyNone) rows"
    using fmt by (rule format_rows_inspection_id)
  moreover have "map timestamp (inspections env) = map ts_text rows"
    using fmt by (rule format_rows_timestamp)
  ultimately show ?thesis
    using rows by simp
qed

text \<open>
  C6, amended. The page statement ends, after its condition, with
  \<open>ORDER BY timestamp DESC\<close> and the line of \<open>LIMIT\<close> and \<open>OFFSET\<close>: the timestamp,
  descending, is its only sort key. The slice has one inspection for every row that
  the Row Store delivers for that statement, with the \<open>inspection_id\<close> and the
  timestamp of the row at the same position; so the timestamps of the slice do not
  increase whenever those of the delivered rows do not, and inspections of the same
  instant are in the order of the store, not in that of their \<open>inspection_id\<close>. The
  envelope that App1 returns after an exception has no inspection.
\<close>

theorem slice_in_delivered_order:
  "suffix (nl @ ''            WHERE '' @ where_sql f @
           nl @ ''            ORDER BY timestamp DESC'' @
           nl @ ''            LIMIT '' @ str_int pp @ '' OFFSET '' @ str_int off @
           nl @ ''        '') (data_query f pp off)
   \<and> (get_inspections wq f pg pp = Inr env \<longrightarrow>
        (\<exists>rows. wq (data_query f pp ((pg - 1) * pp)) = Inr rows
           \<and> map inspection_id (inspections env) =
               map (\<lambda>r. dict_get r ''inspection_id'' PyNone) rows
           \<and> map timestamp (inspections env) = map ts_text rows
           \<and> (newest_first inst (map ts_text rows) \<longrightarrow>
                newest_first inst (map timestamp (inspections env)))))
   \<and> (load_inspections wq f pg pp = (None, env1) \<longrightarrow>
        (\<exists>rows. wq (data_query f pp ((pg - 1) * pp)) = Inr rows
           \<and> map inspection_id (inspections env1) =
               map (\<lambda>r. dict_get r ''inspection_id'' PyNone) rows
           \<and> map timestamp (inspections env1) = map ts_text rows
           \<and> (newest_first inst (map ts_text rows) \<longrightarrow>
                newest_first inst (map timestamp (inspections env1)))))
   \<and> (load_inspections wq f pg pp = (Some e, env2) \<longrightarrow> inspections env2 = [])"
proof (intro conjI impI)
  show "suffix (nl @ ''            WHERE '' @ where_sql f @
           nl @ ''            ORDER BY timestamp DESC'' @
           nl @ ''            LIMIT '' @ str_int pp @ '' OFFSET '' @ str_int off @
           nl @ ''        '') (data_query f pp off)"
    by (rule data_query_ends)
next
  assume "get_inspections wq f pg pp = Inr env"
  then have "inspections_body wq (stats_query f) f pg pp = Inr env"
    by (simp add: get_inspections_Inr)
  then show "\<exists>rows. wq (data_query f pp ((pg - 1) * pp)) = Inr rows
      \<and> map inspection_id (inspections env) = map (\<lambda>r. dict_get r ''inspection_id'' PyNone) rows
      \<and> map timestamp (inspections env) = map ts_text rows
      \<and> (newest_first inst (map ts_text rows) \<longrightarrow>
           newest_first inst (map timestamp (inspections env)))"
    by (rule body_delivered_order)
next
  assume l: "load_inspections wq f pg pp = (None, env1)"
  have "inspections_body wq (stats_query_app1 f) f pg pp = Inr env1"
    using l by (cases rule: load_inspections_cases [of wq f pg pp]) simp_all
  then show "\<exists>rows. wq (data_query f pp ((pg - 1) * pp)) = Inr rows
      \<and> map inspection_id (inspections env1) = map (\<lambda>r. dict_get r ''inspection_id'' PyNone) rows
      \<and> map timestamp (inspections env1) = map ts_text rows
      \<and> (newest_first inst (map ts_text rows) \<longrightarrow>
           newest_first inst (map timestamp (inspections env1)))"
    by (rule body_delivered_order)
next
  assume l: "load_inspections wq f pg pp = (Some e, env2)"
  then show "inspections env2 = []"
    by (cases rule: load_inspections_cases [of wq f pg pp]) (auto simp: error_envelope_def)
qed

text \<open>
  C6, as the claim states it: inspections of the same instant come in ascending order
  of \<open>inspection_id\<close>. The store with \<open>INSP-B\<close> before \<open>INSP-A\<close> in its table, both of one
  instant, executes the statements and the slice is \<open>INSP-B\<close>, \<open>INSP-A\<close>.
\<close>

theorem ties_keep_store_order:
  "map_sum id (map (\<lambda>i. (inspection_id i, timestamp i)) \<circ> inspections)
     (get_inspections (reference_store tie_store no_filters 1 8) no_filters 1 8) =
   Inr [(PyStr ''INSP-B'', ''2025-01-01 08:00:00''), (PyStr ''INSP-A'', ''2025-01-01 08:00:00'')]
   \<and> (''INSP-A'' :: string) < ''INSP-B''"
proof
  show "map_sum id (map (\<lambda>i. (inspection_id i, timestamp i)) \<circ> inspections)
     (get_inspections (reference_store tie_store no_filters 1 8) no_filters 1 8) =
   Inr [(PyStr ''INSP-B'', ''2025-01-01 08:00:00''), (PyStr ''INSP-A'', ''2025-01-01 08:00:00'')]"
    by code_simp
  show "(''INSP-A'' :: string) < ''INSP-B''"
    by simp
qed

lemma example_factory_rows:
  "map_sum id (map (\<lambda>r. (dict_get r ''inspection_id'' PyNone, ts_text r)))
     (reference_store example_store (no_filters\<lparr>factory := Some ''F1''\<rparr>) 1 2
        (data_query (no_filters\<lparr>factory := Some ''F1''\<rparr>) 2 ((1 - 1) * 2))) =
   Inr [(PyStr ''INSP-3'', ''2025-01-03 08:00:00''), (PyStr ''INSP-1'', ''2025-01-01 08:00:00'')]"
  by code_simp

theorem slice_in_delivered_order_witness:
  "get_inspections (reference_store example_store (no_filters\<lparr>factory := Some ''F1''\<rparr>) 1 2)
        (no_filters\<lparr>factory := Some ''F1''\<rparr>) 1 2 = Inr example_factory_page
   \<and> map_sum id (map (\<lambda>r. (dict_get r ''inspection_id'' PyNone, ts_text r)))
     (reference_store example_store (no_filters\<lparr>factory := Some ''F1''\<rparr>) 1 2
        (data_query (no_filters\<lparr>factory := Some ''F1''\<rparr>) 2 ((1 - 1) * 2))) =
     Inr [(PyStr ''INSP-3'', ''2025-01-03 08:00:00''), (PyStr ''INSP-1'', ''2025-01-01 08:00:00'')]
   \<and> map inspection_id (inspections example_factory_page) = [PyStr ''INSP-3'', PyStr ''INSP-1'']
   \<and> map timestamp (inspections example_factory_page) =
       [''2025-01-03 08:00:00'', ''2025-01-01 08:00:00'']
   \<and> newest_first iso_instant [''2025-01-03 08:00:00'', ''2025-01-01 08:00:00'']
   \<and> newest_first iso_instant (map timestamp (inspections example_factory_page))"
proof -
  let ?f = "no_filters\<lparr>factory := Some ''F1''\<rparr>"
  let ?wq = "reference_store example_store ?f 1 2"
  note t = slice_in_delivered_order [of ?f 2 "(1 - 1) * 2" ?wq 1 example_factory_page iso_instant]
  from t example_factory_page_App2 obtain rows where
    rows: "?wq (data_query ?f 2 ((1 - 1) * 2)) = Inr rows"
    and ids: "map inspection_id (inspections example_factory_page) =
      map (\<lambda>r. dict_get r ''inspection_id'' PyNone) rows"
    and ts: "map timestamp (inspections example_factory_page) = map ts_text rows"
    and imp: "newest_first iso_instant (map ts_text rows) \<longrightarrow>
      newest_first iso_instant (map timestamp (inspections example_factory_page))"
    by blast
  from example_factory_rows rows
  have r: "map (\<lambda>r. (dict_get r ''inspection_id'' PyNone, ts_text r)) rows =
      [(PyStr ''INSP-3'', ''2025-01-03 08:00:00''), (PyStr ''INSP-1'', ''2025-01-01 08:00:00'')]"
    by simp
  have "map (\<lambda>r. dict_get r ''inspection_id'' PyNone) rows =
      map fst (map (\<lambda>r. (dict_get r ''inspection_id'' PyNone, ts_text r)) rows)"
    by (simp add: comp_def)
  with r ids have i: "map inspection_id (inspections example_factory_page) =
      [PyStr ''INSP-3'', PyStr ''INSP-1'']"
    by simp
  have "map ts_text rows = map snd (map (\<lambda>r. (dict_get r ''inspection_id'' PyNone, ts_text r)) rows)"
    by (simp add: comp_def)
  with r have tr: "map ts_text rows = [''2025-01-03 08:00:00'', ''2025-01-01 08:00:00'']"
    by simp
  have n: "newest_first iso_instant [''2025-01-03 08:00:00'', ''2025-01-01 08:00:00'']"
    by code_simp
  with imp tr have "newest_first iso_instant (map timestamp (inspections example_factory_page))"
    by simp
  with example_factory_page_App2 example_factory_rows i ts tr n show ?thesis
    by simp
qed

section \<open>Fetching the images of a page\<close>














end
